theory Spec2Isabelle
  imports Complex_Main
begin

section \<open>Data model of the goal service\<close>

text \<open>
  The goal service (\<open>class GoalService\<close>) keeps goals and subtasks either in a
  relational database reached through a client library, or, when no database is
  configured, in two JavaScript \<open>Map\<close>s. Priorities and statuses are the two
  \<open>z.enum\<close>s of the validation schemas. A date is the number of milliseconds that a
  \<open>Date\<close> object holds; each \<open>new Date()\<close> of the source is a reading of the clock
  that the operation is given. Strings are lists of 8-bit characters.
\<close>

datatype priority = HIGH | MEDIUM | LOW

datatype status = ACTIVE | COMPLETED | PAUSED | CANCELLED

record goal =
  goal_id :: string
  goal_title :: string
  goal_description :: "string option"
  goal_priority :: priority
  goal_status :: status
  goal_dueDate :: "string option"
  goal_projectId :: "string option"
  goal_ownerId :: string
  goal_createdAt :: nat
  goal_updatedAt :: nat

text \<open>
  The \<open>completed\<close> field of a stored subtask is a boolean when it comes from the
  creation of a goal, from the addition of a subtask or from a toggle. The update of a
  subtask stores \<open>req.body.completed\<close> as it arrives, so the field can hold any JSON
  value; the toggle and the completion rule read it by its truthiness. An array or an
  object is kept by its JSON text.
\<close>

datatype jsValue = JNull | JBool bool | JNumber rat | JString string | JObject string

fun truthy :: "jsValue \<Rightarrow> bool" where
  "truthy JNull = False"
| "truthy (JBool b) = b"
| "truthy (JNumber n) = (n \<noteq> 0)"
| "truthy (JString s) = (s \<noteq> [])"
| "truthy (JObject j) = True"

text \<open>
  A subtask made by \<open>createGoalInMemory\<close> has the first five fields and the two
  dates; one made by \<open>addSubtaskInMemory\<close> also carries \<open>estimatedHours\<close>,
  \<open>category\<close>, \<open>skills\<close> and \<open>dependencies\<close>. A field that the JavaScript object does not have, or has as
  \<open>undefined\<close>, is \<open>None\<close>.
\<close>

record subtask =
  subtask_id :: string
  subtask_title :: string
  subtask_description :: "string option"
  subtask_completed :: jsValue
  subtask_goalId :: string
  subtask_estimatedHours :: "rat option"
  subtask_category :: "string option"
  subtask_skills :: "string list option"
  subtask_dependencies :: "string list option"
  subtask_createdAt :: nat
  subtask_updatedAt :: nat

text \<open>
  Every failure of the service is a JavaScript \<open>Error\<close> carrying a message; the
  controllers answer it with \<open>{ success: false, error: error.message }\<close>. The messages
  written in the source are \<open>Text\<close>; the two default texts that the validation library
  produces itself (a missing required field, a value outside an enum) stay symbolic.
\<close>

datatype message = Text string | ZodRequired | ZodInvalidEnumValue string

datatype error = Error message | TypeError

subsection \<open>JavaScript \<open>Map\<close> as an insertion-ordered association list\<close>

primrec Map_get :: "('k \<times> 'v) list \<Rightarrow> 'k \<Rightarrow> 'v option" where
  "Map_get [] k = None"
| "Map_get (p # ps) k = (if fst p = k then Some (snd p) else Map_get ps k)"

text \<open>
  \<open>set\<close> on a key already present keeps its position; a new key goes last. The keys
  of a \<open>Map\<close> are distinct, so \<open>delete\<close> removes the one entry of the key.
\<close>

primrec Map_set :: "('k \<times> 'v) list \<Rightarrow> 'k \<Rightarrow> 'v \<Rightarrow> ('k \<times> 'v) list" where
  "Map_set [] k v = [(k, v)]"
| "Map_set (p # ps) k v = (if fst p = k then (k, v) # ps else p # Map_set ps k v)"

definition Map_delete :: "('k \<times> 'v) list \<Rightarrow> 'k \<Rightarrow> ('k \<times> 'v) list" where
  "Map_delete m k = filter (\<lambda>p. fst p \<noteq> k) m"

definition Map_values :: "('k \<times> 'v) list \<Rightarrow> 'v list" where
  "Map_values m = map snd m"

text \<open>The fields of \<open>GoalService\<close> used when the database is not available.\<close>

record store =
  inMemoryGoals :: "(string \<times> goal) list"
  inMemorySubtasks :: "(string \<times> subtask) list"
  goalIdCounter :: nat
  subtaskIdCounter :: nat

text \<open>Decimal rendering of a counter inside a template literal.\<close>

definition digit_char :: "nat \<Rightarrow> char" where
  "digit_char d = char_of (48 + d)"

fun string_of_nat :: "nat \<Rightarrow> string" where
  "string_of_nat n =
     (if n < 10 then [digit_char n] else string_of_nat (n div 10) @ [digit_char (n mod 10)])"

declare string_of_nat.simps [simp del]

section \<open>The in-memory goal service\<close>

text \<open>
  Each operation takes the store and returns its result, or the error it throws,
  together with the store it leaves behind. An operation that calls \<open>new Date()\<close> takes
  the reading of the clock first, one argument for each call it can make.
\<close>

definition subtasksOfGoal :: "store \<Rightarrow> string \<Rightarrow> subtask list" where
  "subtasksOfGoal s goalId =
     filter (\<lambda>subtask. subtask_goalId subtask = goalId) (Map_values (inMemorySubtasks s))"



definition toggleSubtaskInMemory ::
  "nat \<Rightarrow> string \<Rightarrow> string \<Rightarrow> store \<Rightarrow> (error + subtask) \<times> store" where
  "toggleSubtaskInMemory now userId subtaskId s =
     (case Map_get (inMemorySubtasks s) subtaskId of
        None \<Rightarrow> (Inl (Error (Text ''Subtask not found'')), s)
      | Some subtask \<Rightarrow>
          (case Map_get (inMemoryGoals s) (subtask_goalId subtask) of
             None \<Rightarrow> (Inl (Error (Text ''Access denied'')), s)
           | Some goal \<Rightarrow>
               if goal_ownerId goal \<noteq> userId then (Inl (Error (Text ''Access denied'')), s)
               else
                 (let subtask' = subtask\<lparr>subtask_completed := JBool (\<not> truthy (subtask_completed subtask)),
                                         subtask_updatedAt := now\<rparr>
                  in (Inr subtask',
                      s\<lparr>inMemorySubtasks := Map_set (inMemorySubtasks s) subtaskId subtask'\<rparr>))))"

text \<open>What \<open>addSubtask\<close> is given: the controller passes \<open>title\<close> and \<open>description\<close> only.\<close>

record subtaskData =
  sd_title :: "string option"
  sd_description :: "string option"
  sd_estimatedHours :: "rat option"
  sd_category :: "string option"
  sd_skills :: "string list option"
  sd_dependencies :: "string list option"

text \<open>\<open>subtaskData.skills || []\<close>: an absent value becomes the empty list.\<close>

definition orEmpty :: "string list option \<Rightarrow> string list" where
  "orEmpty v = (case v of None \<Rightarrow> [] | Some xs \<Rightarrow> xs)"

text \<open>
  The stored title is \<open>subtaskData.title\<close>; the controller has already rejected an
  absent or empty one, and the service does not check again. An absent title is stored
  as the empty string here.
\<close>

definition addSubtaskInMemory ::
  "nat \<Rightarrow> nat \<Rightarrow> string \<Rightarrow> string \<Rightarrow> subtaskData \<Rightarrow> store \<Rightarrow> (error + subtask) \<times> store" where
  "addSubtaskInMemory now1 now2 userId goalId sd s =
     (case Map_get (inMemoryGoals s) goalId of
        None \<Rightarrow> (Inl (Error (Text ''Goal not found or access denied'')), s)
      | Some goal \<Rightarrow>
          if goal_ownerId goal \<noteq> userId
          then (Inl (Error (Text ''Goal not found or access denied'')), s)
          else
            (let subtaskId = ''subtask-'' @ string_of_nat (subtaskIdCounter s);
                 subtask = \<lparr>subtask_id = subtaskId,
                            subtask_title = (case sd_title sd of None \<Rightarrow> [] | Some t \<Rightarrow> t),
                            subtask_description = sd_description sd,
                            subtask_completed = JBool False,
                            subtask_goalId = goalId,
                            subtask_estimatedHours = sd_estimatedHours sd,
                            subtask_category = sd_category sd,
                            subtask_skills = Some (orEmpty (sd_skills sd)),
                            subtask_dependencies = Some (orEmpty (sd_dependencies sd)),
                            subtask_createdAt = now1,
                            subtask_updatedAt = now2\<rparr>
             in (Inr subtask,
                 s\<lparr>subtaskIdCounter := subtaskIdCounter s + 1,
                   inMemorySubtasks := Map_set (inMemorySubtasks s) subtaskId subtask\<rparr>)))"

text \<open>
  The three fields that the controller takes from the body of an update of a subtask,
  each \<open>None\<close> when it is \<open>undefined\<close>. \<open>completed\<close> is stored as it arrives, whatever
  JSON value it is; the title and the description are taken to be strings.
\<close>

record subtaskUpdate =
  su_title :: "string option"
  su_description :: "string option"
  su_completed :: "jsValue option"

definition updateSubtaskInMemory ::
  "nat \<Rightarrow> string \<Rightarrow> string \<Rightarrow> string \<Rightarrow> subtaskUpdate \<Rightarrow> store
     \<Rightarrow> (error + subtask) \<times> store" where
  "updateSubtaskInMemory now userId goalId subtaskId su s =
     (case Map_get (inMemorySubtasks s) subtaskId of
        None \<Rightarrow> (Inl (Error (Text ''Subtask not found'')), s)
      | Some subtask \<Rightarrow>
          if subtask_goalId subtask \<noteq> goalId then (Inl (Error (Text ''Subtask not found'')), s)
          else
            (case Map_get (inMemoryGoals s) goalId of
               None \<Rightarrow> (Inl (Error (Text ''Access denied'')), s)
             | Some goal \<Rightarrow>
                 if goal_ownerId goal \<noteq> userId then (Inl (Error (Text ''Access denied'')), s)
                 else
                   (let s1 = (case su_title su of None \<Rightarrow> subtask
                                | Some t \<Rightarrow> subtask\<lparr>subtask_title := t\<rparr>);
                        s2 = (case su_description su of None \<Rightarrow> s1
                                | Some d \<Rightarrow> s1\<lparr>subtask_description := Some d\<rparr>);
                        s3 = (case su_completed su of None \<Rightarrow> s2
                                | Some c \<Rightarrow> s2\<lparr>subtask_completed := c\<rparr>);
                        s4 = s3\<lparr>subtask_updatedAt := now\<rparr>
                    in (Inr s4,
                        s\<lparr>inMemorySubtasks := Map_set (inMemorySubtasks s) subtaskId s4\<rparr>))))"

text \<open>
  The completion rule. It returns nothing; it throws when the goal is missing or not
  the caller's, and writes the goal back only in its two status-changing branches.
\<close>

definition checkAndUpdateGoalCompletionInMemory ::
  "nat \<Rightarrow> string \<Rightarrow> string \<Rightarrow> store \<Rightarrow> (error + unit) \<times> store" where
  "checkAndUpdateGoalCompletionInMemory now userId goalId s =
     (case Map_get (inMemoryGoals s) goalId of
        None \<Rightarrow> (Inl (Error (Text ''Goal not found or access denied'')), s)
      | Some goal \<Rightarrow>
          if goal_ownerId goal \<noteq> userId
          then (Inl (Error (Text ''Goal not found or access denied'')), s)
          else
            (let subtasks = subtasksOfGoal s goalId
             in if length subtasks > 0 then
                  (let allCompleted = list_all (\<lambda>subtask. truthy (subtask_completed subtask)) subtasks
                   in if allCompleted \<and> goal_status goal \<noteq> COMPLETED then
                        (Inr (), s\<lparr>inMemoryGoals :=
                                     Map_set (inMemoryGoals s) goalId
                                       (goal\<lparr>goal_status := COMPLETED, goal_updatedAt := now\<rparr>)\<rparr>)
                      else if \<not> allCompleted \<and> goal_status goal = COMPLETED then
                        (Inr (), s\<lparr>inMemoryGoals :=
                                     Map_set (inMemoryGoals s) goalId
                                       (goal\<lparr>goal_status := ACTIVE, goal_updatedAt := now\<rparr>)\<rparr>)
                      else (Inr (), s))
                else (Inr (), s)))"

text \<open>
  Deleting a goal removes its entry, then walks a snapshot of the subtask entries and
  deletes each one whose \<open>goalId\<close> is the goal's.
\<close>

definition deleteGoalInMemory :: "string \<Rightarrow> string \<Rightarrow> store \<Rightarrow> (error + string) \<times> store" where
  "deleteGoalInMemory userId goalId s =
     (case Map_get (inMemoryGoals s) goalId of
        None \<Rightarrow> (Inl (Error (Text ''Goal not found or access denied'')), s)
      | Some goal \<Rightarrow>
          if goal_ownerId goal \<noteq> userId
          then (Inl (Error (Text ''Goal not found or access denied'')), s)
          else
            (Inr ''Goal deleted successfully'',
             s\<lparr>inMemoryGoals := Map_delete (inMemoryGoals s) goalId,
               inMemorySubtasks :=
                 fold (\<lambda>(id, subtask) m. if subtask_goalId subtask = goalId then Map_delete m id else m)
                      (inMemorySubtasks s) (inMemorySubtasks s)\<rparr>))"

section \<open>The goal controller over the in-memory service\<close>

text \<open>
  With no database configured, every \<open>goalService\<close> method hands over to its
  \<open>InMemory\<close> twin. A controller answers 200 or 201 with the payload when the service
  returns, and 400 with the error's message when it throws. The two controllers that
  change the completion of a subtask run the completion rule afterwards: the toggle
  always, the update when the body has a \<open>completed\<close> field.
\<close>

definition GoalController_toggleSubtask ::
  "nat \<Rightarrow> nat \<Rightarrow> string \<Rightarrow> string \<Rightarrow> store \<Rightarrow> (error + subtask) \<times> store" where
  "GoalController_toggleSubtask now1 now2 userId subtaskId s =
     (case toggleSubtaskInMemory now1 userId subtaskId s of
        (Inl e, s1) \<Rightarrow> (Inl e, s1)
      | (Inr subtask, s1) \<Rightarrow>
          (case checkAndUpdateGoalCompletionInMemory now2 userId (subtask_goalId subtask) s1 of
             (Inl e, s2) \<Rightarrow> (Inl e, s2)
           | (Inr _, s2) \<Rightarrow> (Inr subtask, s2)))"

definition GoalController_updateSubtask ::
  "nat \<Rightarrow> nat \<Rightarrow> string \<Rightarrow> string \<Rightarrow> string \<Rightarrow> subtaskUpdate \<Rightarrow> store
     \<Rightarrow> (error + subtask) \<times> store" where
  "GoalController_updateSubtask now1 now2 userId goalId subtaskId body s =
     (case updateSubtaskInMemory now1 userId goalId subtaskId body s of
        (Inl e, s1) \<Rightarrow> (Inl e, s1)
      | (Inr subtask, s1) \<Rightarrow>
          if su_completed body \<noteq> None then
            (case checkAndUpdateGoalCompletionInMemory now2 userId goalId s1 of
               (Inl e, s2) \<Rightarrow> (Inl e, s2)
             | (Inr _, s2) \<Rightarrow> (Inr subtask, s2))
          else (Inr subtask, s1))"

text \<open>The body of the request that adds a subtask; only two of its fields are read.\<close>

record addSubtaskBody =
  body_title :: "string option"
  body_description :: "string option"
  body_completed :: "jsValue option"

definition GoalController_addSubtask ::
  "nat \<Rightarrow> nat \<Rightarrow> string \<Rightarrow> string \<Rightarrow> addSubtaskBody \<Rightarrow> store \<Rightarrow> (error + subtask) \<times> store" where
  "GoalController_addSubtask now1 now2 userId goalId body s =
     (if body_title body = None \<or> body_title body = Some []
      then (Inl (Error (Text ''Subtask title is required'')), s)
      else addSubtaskInMemory now1 now2 userId goalId
             \<lparr>sd_title = body_title body, sd_description = body_description body,
              sd_estimatedHours = None, sd_category = None,
              sd_skills = None, sd_dependencies = None\<rparr> s)"

subsection \<open>The demo data of \<open>seedDemoData\<close>\<close>

text \<open>
  Seeding reads the clock fourteen times: twice for each of the two goals, then twice
  for each of the five subtasks. \<open>dates k\<close> is the reading number \<open>k\<close>.
\<close>

definition demoGoal1 :: "nat \<Rightarrow> nat \<Rightarrow> goal" where
  "demoGoal1 createdAt updatedAt = \<lparr>goal_id = ''goal-1'', goal_title = ''Launch Product MVP'',
      goal_description = Some ''Complete and launch the minimum viable product'',
      goal_priority = HIGH, goal_status = ACTIVE,
      goal_dueDate = Some ''2025-10-30T00:00:00.000Z'', goal_projectId = None,
      goal_ownerId = ''user-1'', goal_createdAt = createdAt, goal_updatedAt = updatedAt\<rparr>"

definition demoGoal2 :: "nat \<Rightarrow> nat \<Rightarrow> goal" where
  "demoGoal2 createdAt updatedAt = \<lparr>goal_id = ''goal-2'', goal_title = ''Marketing Push'',
      goal_description = Some ''Execute comprehensive marketing strategy'',
      goal_priority = MEDIUM, goal_status = ACTIVE,
      goal_dueDate = Some ''2025-11-15T00:00:00.000Z'', goal_projectId = None,
      goal_ownerId = ''user-1'', goal_createdAt = createdAt, goal_updatedAt = updatedAt\<rparr>"

definition demoSubtask :: "string \<Rightarrow> string \<Rightarrow> bool \<Rightarrow> string \<Rightarrow> nat \<Rightarrow> nat \<Rightarrow> subtask" where
  "demoSubtask i t c g createdAt updatedAt =
     \<lparr>subtask_id = i, subtask_title = t, subtask_description = None,
      subtask_completed = JBool c, subtask_goalId = g, subtask_estimatedHours = None,
      subtask_category = None, subtask_skills = None, subtask_dependencies = None,
      subtask_createdAt = createdAt, subtask_updatedAt = updatedAt\<rparr>"

definition seedDemoData :: "(nat \<Rightarrow> nat) \<Rightarrow> store" where
  "seedDemoData dates = \<lparr>
     inMemoryGoals = [(''goal-1'', demoGoal1 (dates 0) (dates 1)),
                      (''goal-2'', demoGoal2 (dates 2) (dates 3))],
     inMemorySubtasks =
       [(''subtask-1'', demoSubtask ''subtask-1'' ''Finalize landing page'' True ''goal-1''
                          (dates 4) (dates 5)),
        (''subtask-2'', demoSubtask ''subtask-2'' ''QA test checkout flow'' False ''goal-1''
                          (dates 6) (dates 7)),
        (''subtask-3'', demoSubtask ''subtask-3'' ''Record demo video'' False ''goal-1''
                          (dates 8) (dates 9)),
        (''subtask-4'', demoSubtask ''subtask-4'' ''Draft announcement'' False ''goal-2''
                          (dates 10) (dates 11)),
        (''subtask-5'', demoSubtask ''subtask-5'' ''Plan social posts'' False ''goal-2''
                          (dates 12) (dates 13))],
     goalIdCounter = 3,
     subtaskIdCounter = 6\<rparr>"

section \<open>Validation of goals\<close>

text \<open>
  What a caller may send as a goal. \<open>platformTags\<close> and \<open>teamMembers\<close> are left out:
  the in-memory service never reads them and answers both as empty lists.
\<close>

record rawSubtask =
  rs_id :: "string option"
  rs_title :: "string option"
  rs_description :: "string option"
  rs_completed :: "bool option"

record goalInput =
  in_title :: "string option"
  in_description :: "string option"
  in_priority :: "string option"
  in_status :: "string option"
  in_dueDate :: "string option"
  in_projectId :: "string option"
  in_subtasks :: "rawSubtask list option"

record validatedSubtask =
  vs_id :: "string option"
  vs_title :: string
  vs_description :: "string option"
  vs_completed :: bool

record validatedGoal =
  v_title :: string
  v_description :: "string option"
  v_priority :: priority
  v_status :: status
  v_dueDate :: "string option"
  v_projectId :: "string option"
  v_subtasks :: "validatedSubtask list"

text \<open>The result of \<open>updateGoalSchema = goalSchema.partial()\<close>: no field is required,
  and no default is filled in.\<close>

record validatedUpdate =
  u_title :: "string option"
  u_description :: "string option"
  u_priority :: "priority option"
  u_status :: "status option"
  u_dueDate :: "string option"
  u_projectId :: "string option"
  u_subtasks :: "validatedSubtask list option"

definition prioritySchema :: "string \<Rightarrow> priority option" where
  "prioritySchema v =
     (if v = ''HIGH'' then Some HIGH else if v = ''MEDIUM'' then Some MEDIUM
      else if v = ''LOW'' then Some LOW else None)"

definition statusSchema :: "string \<Rightarrow> status option" where
  "statusSchema v =
     (if v = ''ACTIVE'' then Some ACTIVE else if v = ''COMPLETED'' then Some COMPLETED
      else if v = ''PAUSED'' then Some PAUSED else if v = ''CANCELLED'' then Some CANCELLED
      else None)"

text \<open>\<open>z.string().min(1, msg)\<close> on a required field: the issues it raises.\<close>

definition requiredMin1 :: "string \<Rightarrow> string option \<Rightarrow> message list" where
  "requiredMin1 msg v =
     (case v of None \<Rightarrow> [ZodRequired]
      | Some t \<Rightarrow> if length t < 1 then [Text msg] else [])"

text \<open>The same field made optional by \<open>partial()\<close>: absent is accepted.\<close>

definition optionalMin1 :: "string \<Rightarrow> string option \<Rightarrow> message list" where
  "optionalMin1 msg v =
     (case v of None \<Rightarrow> []
      | Some t \<Rightarrow> if length t < 1 then [Text msg] else [])"

definition enumIssues :: "(string \<Rightarrow> 'a option) \<Rightarrow> string option \<Rightarrow> message list" where
  "enumIssues schema v =
     (case v of None \<Rightarrow> []
      | Some x \<Rightarrow> (case schema x of None \<Rightarrow> [ZodInvalidEnumValue x] | Some _ \<Rightarrow> []))"

definition subtaskSchemaIssues :: "rawSubtask \<Rightarrow> message list" where
  "subtaskSchemaIssues r = requiredMin1 ''Subtask title is required'' (rs_title r)"

definition subtaskSchemaValue :: "rawSubtask \<Rightarrow> validatedSubtask" where
  "subtaskSchemaValue r =
     \<lparr>vs_id = rs_id r,
      vs_title = (case rs_title r of None \<Rightarrow> [] | Some t \<Rightarrow> t),
      vs_description = rs_description r,
      vs_completed = (case rs_completed r of None \<Rightarrow> False | Some c \<Rightarrow> c)\<rparr>"

text \<open>
  The transform of \<open>dueDate\<close>. \<open>toISO\<close> stands for the date parser of the runtime
  (\<open>new Date(val)\<close>, then \<open>toISOString()\<close>): \<open>None\<close> when the date is invalid. The
  transform throws a plain error from inside the parse, so that error wins over any
  issue collected for another field.
\<close>

definition dueDateTransform :: "(string \<Rightarrow> string option) \<Rightarrow> string option \<Rightarrow> error + string option" where
  "dueDateTransform toISO val =
     (case val of None \<Rightarrow> Inr None
      | Some v \<Rightarrow>
          if v = [] then Inr None
          else (case toISO v of
                  None \<Rightarrow> Inl (Error (Text ''Invalid date format''))
                | Some isoString \<Rightarrow> Inr (Some isoString)))"

text \<open>
  \<open>goalSchema.parse\<close>, with the service's handling of its failure: the first issue's
  message becomes the error. Fields are visited in the order of the schema.
\<close>

definition goalSchema :: "(string \<Rightarrow> string option) \<Rightarrow> goalInput \<Rightarrow> error + validatedGoal" where
  "goalSchema toISO input =
     (let issues1 = requiredMin1 ''Goal title is required'' (in_title input)
                    @ enumIssues prioritySchema (in_priority input)
                    @ enumIssues statusSchema (in_status input)
      in case dueDateTransform toISO (in_dueDate input) of
           Inl e \<Rightarrow> Inl e
         | Inr dueDate \<Rightarrow>
             (let raws = (case in_subtasks input of None \<Rightarrow> [] | Some rs \<Rightarrow> rs);
                  issues = issues1 @ concat (map subtaskSchemaIssues raws)
              in case issues of
                   m # _ \<Rightarrow> Inl (Error m)
                 | [] \<Rightarrow>
                     Inr \<lparr>v_title = (case in_title input of None \<Rightarrow> [] | Some t \<Rightarrow> t),
                          v_description = in_description input,
                          v_priority = (case in_priority input of None \<Rightarrow> MEDIUM
                                        | Some p \<Rightarrow> (case prioritySchema p of None \<Rightarrow> MEDIUM | Some q \<Rightarrow> q)),
                          v_status = (case in_status input of None \<Rightarrow> ACTIVE
                                      | Some p \<Rightarrow> (case statusSchema p of None \<Rightarrow> ACTIVE | Some q \<Rightarrow> q)),
                          v_dueDate = dueDate,
                          v_projectId = in_projectId input,
                          v_subtasks = map subtaskSchemaValue raws\<rparr>))"

definition updateGoalSchema :: "(string \<Rightarrow> string option) \<Rightarrow> goalInput \<Rightarrow> error + validatedUpdate" where
  "updateGoalSchema toISO input =
     (let issues1 = optionalMin1 ''Goal title is required'' (in_title input)
                    @ enumIssues prioritySchema (in_priority input)
                    @ enumIssues statusSchema (in_status input)
      in case dueDateTransform toISO (in_dueDate input) of
           Inl e \<Rightarrow> Inl e
         | Inr dueDate \<Rightarrow>
             (let raws = (case in_subtasks input of None \<Rightarrow> [] | Some rs \<Rightarrow> rs);
                  issues = issues1 @ concat (map subtaskSchemaIssues raws)
              in case issues of
                   m # _ \<Rightarrow> Inl (Error m)
                 | [] \<Rightarrow>
                     Inr \<lparr>u_title = in_title input,
                          u_description = in_description input,
                          u_priority = (case in_priority input of None \<Rightarrow> None | Some p \<Rightarrow> prioritySchema p),
                          u_status = (case in_status input of None \<Rightarrow> None | Some p \<Rightarrow> statusSchema p),
                          u_dueDate = dueDate,
                          u_projectId = in_projectId input,
                          u_subtasks = map_option (map subtaskSchemaValue) (in_subtasks input)\<rparr>))"

subsection \<open>Creating and updating a goal\<close>

text \<open>
  The \<open>map\<close> over the supplied subtasks: each takes the next identifier and is stored.
  \<open>dates k\<close> is the reading number \<open>k\<close> of the clock during \<open>createGoalInMemory\<close>: two
  readings for the goal, then two for each subtask; \<open>k\<close> counts the readings made so far.
\<close>

fun createSubtasks ::
  "(nat \<Rightarrow> nat) \<Rightarrow> nat \<Rightarrow> string \<Rightarrow> validatedSubtask list \<Rightarrow> store \<Rightarrow> subtask list \<times> store" where
  "createSubtasks dates k goalId [] s = ([], s)"
| "createSubtasks dates k goalId (subtaskData # rest) s =
     (let subtaskId = ''subtask-'' @ string_of_nat (subtaskIdCounter s);
          subtask = \<lparr>subtask_id = subtaskId, subtask_title = vs_title subtaskData,
                     subtask_description = vs_description subtaskData,
                     subtask_completed = JBool (vs_completed subtaskData),
                     subtask_goalId = goalId, subtask_estimatedHours = None,
                     subtask_category = None, subtask_skills = None,
                     subtask_dependencies = None,
                     subtask_createdAt = dates k, subtask_updatedAt = dates (k + 1)\<rparr>;
          s1 = s\<lparr>subtaskIdCounter := subtaskIdCounter s + 1,
                 inMemorySubtasks := Map_set (inMemorySubtasks s) subtaskId subtask\<rparr>;
          (subtasks, s2) = createSubtasks dates (k + 2) goalId rest s1
      in (subtask # subtasks, s2))"

definition createGoalInMemory ::
  "(nat \<Rightarrow> nat) \<Rightarrow> string \<Rightarrow> validatedGoal \<Rightarrow> store \<Rightarrow> (goal \<times> subtask list) \<times> store" where
  "createGoalInMemory dates userId validatedData s =
     (let goalId = ''goal-'' @ string_of_nat (goalIdCounter s);
          goal = \<lparr>goal_id = goalId, goal_title = v_title validatedData,
                  goal_description = v_description validatedData,
                  goal_priority = v_priority validatedData,
                  goal_status = v_status validatedData,
                  goal_dueDate = v_dueDate validatedData,
                  goal_projectId = v_projectId validatedData,
                  goal_ownerId = userId,
                  goal_createdAt = dates 0, goal_updatedAt = dates 1\<rparr>;
          s1 = s\<lparr>goalIdCounter := goalIdCounter s + 1,
                 inMemoryGoals := Map_set (inMemoryGoals s) goalId goal\<rparr>;
          (subtasks, s2) = createSubtasks dates 2 goalId (v_subtasks validatedData) s1
      in ((goal, subtasks), s2))"

definition createGoal ::
  "(string \<Rightarrow> string option) \<Rightarrow> (nat \<Rightarrow> nat) \<Rightarrow> string \<Rightarrow> goalInput \<Rightarrow> store
     \<Rightarrow> (error + goal \<times> subtask list) \<times> store" where
  "createGoal toISO dates userId goalData s =
     (case goalSchema toISO goalData of
        Inl e \<Rightarrow> (Inl e, s)
      | Inr validatedData \<Rightarrow>
          (case createGoalInMemory dates userId validatedData s of (r, s') \<Rightarrow> (Inr r, s')))"

text \<open>
  \<open>Object.keys(validatedData).forEach\<close>: every field that is not \<open>undefined\<close>
  overwrites the goal's. The \<open>subtasks\<close> key lands on the stored object too, where every
  answer overrides it with the subtasks read from the subtask map.
\<close>

definition updateGoalInMemory ::
  "nat \<Rightarrow> string \<Rightarrow> string \<Rightarrow> validatedUpdate \<Rightarrow> store
     \<Rightarrow> (error + goal \<times> subtask list) \<times> store" where
  "updateGoalInMemory now userId goalId validatedData s =
     (case Map_get (inMemoryGoals s) goalId of
        None \<Rightarrow> (Inl (Error (Text ''Goal not found or access denied'')), s)
      | Some goal \<Rightarrow>
          if goal_ownerId goal \<noteq> userId
          then (Inl (Error (Text ''Goal not found or access denied'')), s)
          else
            (let g1 = (case u_title validatedData of None \<Rightarrow> goal
                        | Some t \<Rightarrow> goal\<lparr>goal_title := t\<rparr>);
                 g2 = (case u_description validatedData of None \<Rightarrow> g1
                        | Some d \<Rightarrow> g1\<lparr>goal_description := Some d\<rparr>);
                 g3 = (case u_priority validatedData of None \<Rightarrow> g2
                        | Some p \<Rightarrow> g2\<lparr>goal_priority := p\<rparr>);
                 g4 = (case u_status validatedData of None \<Rightarrow> g3
                        | Some st \<Rightarrow> g3\<lparr>goal_status := st\<rparr>);
                 g5 = (case u_dueDate validatedData of None \<Rightarrow> g4
                        | Some d \<Rightarrow> g4\<lparr>goal_dueDate := Some d\<rparr>);
                 g6 = (case u_projectId validatedData of None \<Rightarrow> g5
                        | Some p \<Rightarrow> g5\<lparr>goal_projectId := Some p\<rparr>);
                 g7 = g6\<lparr>goal_updatedAt := now\<rparr>;
                 s' = s\<lparr>inMemoryGoals := Map_set (inMemoryGoals s) goalId g7\<rparr>
             in (Inr (g7, subtasksOfGoal s' goalId), s')))"

definition updateGoal ::
  "(string \<Rightarrow> string option) \<Rightarrow> nat \<Rightarrow> string \<Rightarrow> string \<Rightarrow> goalInput \<Rightarrow> store
     \<Rightarrow> (error + goal \<times> subtask list) \<times> store" where
  "updateGoal toISO now userId goalId updateData s =
     (case updateGoalSchema toISO updateData of
        Inl e \<Rightarrow> (Inl e, s)
      | Inr validatedData \<Rightarrow> updateGoalInMemory now userId goalId validatedData s)"

section \<open>The database path of two service methods\<close>

text \<open>
  When a database is configured the service goes through the client library. Its
  tables are modelled as lists of rows; \<open>findFirst\<close> returns the first row that
  satisfies the \<open>where\<close> clause, or null; a relation filter (\<open>goal: { ownerId }\<close>) holds
  when the row's parent goal satisfies it; \<open>update\<close> changes the row with the given
  identifier; \<open>create\<close> adds a row under an identifier chosen by the database. The
  database stamps the dates of a row itself, at its own time \<open>now\<close>.
\<close>

record database =
  db_goals :: "goal list"
  db_subtasks :: "subtask list"

definition toggleSubtask_prisma ::
  "nat \<Rightarrow> string \<Rightarrow> string \<Rightarrow> database \<Rightarrow> (error + subtask) \<times> database" where
  "toggleSubtask_prisma now userId subtaskId db =
     (case find (\<lambda>row. subtask_id row = subtaskId \<and>
                        list_ex (\<lambda>g. goal_id g = subtask_goalId row \<and> goal_ownerId g = userId)
                                (db_goals db))
                (db_subtasks db) of
        None \<Rightarrow> (Inl (Error (Text ''Subtask not found or access denied'')), db)
      | Some subtask \<Rightarrow>
          (let updatedSubtask = subtask\<lparr>subtask_completed := JBool (\<not> truthy (subtask_completed subtask)),
                                               subtask_updatedAt := now\<rparr>
           in (Inr updatedSubtask,
               db\<lparr>db_subtasks :=
                    map (\<lambda>row. if subtask_id row = subtaskId
                               then row\<lparr>subtask_completed := JBool (\<not> truthy (subtask_completed subtask)),
                                        subtask_updatedAt := now\<rparr>
                               else row)
                        (db_subtasks db)\<rparr>)))"

definition addSubtask_prisma ::
  "nat \<Rightarrow> string \<Rightarrow> string \<Rightarrow> string \<Rightarrow> subtaskData \<Rightarrow> database
     \<Rightarrow> (error + subtask) \<times> database" where
  "addSubtask_prisma now newId userId goalId sd db =
     (case find (\<lambda>g. goal_id g = goalId \<and> goal_ownerId g = userId) (db_goals db) of
        None \<Rightarrow> (Inl (Error (Text ''Goal not found or access denied'')), db)
      | Some goal \<Rightarrow>
          (let subtask = \<lparr>subtask_id = newId,
                          subtask_title = (case sd_title sd of None \<Rightarrow> [] | Some t \<Rightarrow> t),
                          subtask_description = sd_description sd,
                          subtask_completed = JBool False,
                          subtask_goalId = goalId,
                          subtask_estimatedHours = None, subtask_category = None,
                          subtask_skills = None, subtask_dependencies = None,
                          subtask_createdAt = now, subtask_updatedAt = now\<rparr>
           in (Inr subtask, db\<lparr>db_subtasks := db_subtasks db @ [subtask]\<rparr>)))"

text \<open>The rows of an in-memory store, held in the database instead.\<close>

definition databaseOf :: "store \<Rightarrow> database" where
  "databaseOf s = \<lparr>db_goals = Map_values (inMemoryGoals s),
                   db_subtasks = Map_values (inMemorySubtasks s)\<rparr>"

section \<open>The suggestion fallback\<close>

text \<open>
  \<open>toLowerCase\<close> on the letters \<open>A\<close> to \<open>Z\<close>; every other character is kept. The
  lower-cased text is used only to look for keywords, which are lower-case ASCII words.
\<close>

definition toLowerChar :: "char \<Rightarrow> char" where
  "toLowerChar c =
     (let n = (of_char c :: nat) in if 65 \<le> n \<and> n \<le> 90 then char_of (n + 32) else c)"

definition toLowerCase :: "string \<Rightarrow> string" where
  "toLowerCase s = map toLowerChar s"

fun startsWith :: "string \<Rightarrow> string \<Rightarrow> bool" where
  "startsWith s [] = True"
| "startsWith [] (p # ps) = False"
| "startsWith (c # cs) (p # ps) = (c = p \<and> startsWith cs ps)"

text \<open>\<open>String.prototype.includes\<close>: the pattern occurs somewhere in the string.\<close>

fun str_includes :: "string \<Rightarrow> string \<Rightarrow> bool" where
  "str_includes [] pat = startsWith [] pat"
| "str_includes (c # cs) pat = (startsWith (c # cs) pat \<or> str_includes cs pat)"

record suggestedTask =
  task_title :: string
  task_description :: string
  task_estimatedHours :: nat
  task_priority :: priority
  task_dependencies :: "string list"
  task_skills :: "string list"
  task_category :: string

record fallbackResult =
  res_success :: bool
  res_subtasks :: "suggestedTask list"
  res_reasoning :: string
  res_estimatedTotalHours :: nat
  res_criticalPath :: "string list"
  res_tips :: "string list"
  res_generatedBy :: string

text \<open>The two fields of the context that the fallback reads.\<close>

record fallbackContext =
  ctx_priority :: "string option"
  ctx_teamSize :: "rat option"

text \<open>
  The second argument as JavaScript sees it. The default \<open>context = {}\<close> replaces
  \<open>undefined\<close> only; destructuring \<open>null\<close> throws a \<open>TypeError\<close>.
\<close>

datatype contextArg = ContextUndefined | ContextNull | ContextObject fallbackContext

definition scopeTask :: "string \<Rightarrow> suggestedTask" where
  "scopeTask goalDescription =
     \<lparr>task_title = ''Define project scope and requirements'',
      task_description = ''Clearly outline what needs to be accomplished for: '' @ goalDescription,
      task_estimatedHours = 3, task_priority = HIGH, task_dependencies = [],
      task_skills = [''planning'', ''analysis''], task_category = ''planning''\<rparr>"

definition setupTask :: suggestedTask where
  "setupTask =
     \<lparr>task_title = ''Set up development environment'',
      task_description = ''Prepare all necessary tools and configurations'',
      task_estimatedHours = 2, task_priority = HIGH,
      task_dependencies = [''Define project scope and requirements''],
      task_skills = [''technical setup''], task_category = ''execution''\<rparr>"

definition implementTask :: suggestedTask where
  "implementTask =
     \<lparr>task_title = ''Implement core functionality'',
      task_description = ''Build the main features and components'',
      task_estimatedHours = 12, task_priority = HIGH,
      task_dependencies = [''Set up development environment''],
      task_skills = [''development'', ''coding''], task_category = ''execution''\<rparr>"

definition testingTask :: suggestedTask where
  "testingTask =
     \<lparr>task_title = ''Conduct thorough testing'',
      task_description = ''Test all functionality and edge cases'',
      task_estimatedHours = 4, task_priority = HIGH,
      task_dependencies = [''Implement core functionality''],
      task_skills = [''testing'', ''qa''], task_category = ''review''\<rparr>"

definition deploymentTask :: suggestedTask where
  "deploymentTask =
     \<lparr>task_title = ''Prepare for deployment'',
      task_description = ''Set up production environment and deployment pipeline'',
      task_estimatedHours = 3, task_priority = MEDIUM,
      task_dependencies = [''Conduct thorough testing''],
      task_skills = [''devops'', ''deployment''], task_category = ''execution''\<rparr>"

definition coordinationTask :: suggestedTask where
  "coordinationTask =
     \<lparr>task_title = ''Coordinate team activities'',
      task_description = ''Regular check-ins and progress updates with team members'',
      task_estimatedHours = 2, task_priority = MEDIUM, task_dependencies = [],
      task_skills = [''communication'', ''project management''],
      task_category = ''communication''\<rparr>"

text \<open>\<open>subtasks.slice(-1)\<close>: the last element, as a list.\<close>

definition sliceLast :: "'a list \<Rightarrow> 'a list" where
  "sliceLast xs = drop (length xs - 1) xs"

definition reviewTask :: "suggestedTask list \<Rightarrow> suggestedTask" where
  "reviewTask subtasks =
     \<lparr>task_title = ''Final review and documentation'',
      task_description = ''Review completed work and create necessary documentation'',
      task_estimatedHours = 2, task_priority = MEDIUM,
      task_dependencies = map task_title (sliceLast subtasks),
      task_skills = [''documentation'', ''review''], task_category = ''review''\<rparr>"

definition generateSubtasksFallback :: "string \<Rightarrow> contextArg \<Rightarrow> error + fallbackResult" where
  "generateSubtasksFallback goalDescription contextArg =
     (case (case contextArg of
              ContextUndefined \<Rightarrow> Inr \<lparr>ctx_priority = None, ctx_teamSize = None\<rparr>
            | ContextNull \<Rightarrow> Inl TypeError
            | ContextObject c \<Rightarrow> Inr c) of
        Inl e \<Rightarrow> Inl e
      | Inr ctx \<Rightarrow>
          (let teamSize = (case ctx_teamSize ctx of None \<Rightarrow> 1 | Some n \<Rightarrow> n);
               words = toLowerCase goalDescription;
               subtasks1 = [scopeTask goalDescription];
               subtasks2 = (if str_includes words ''develop'' \<or> str_includes words ''build''
                               \<or> str_includes words ''create''
                            then subtasks1 @ [setupTask, implementTask] else subtasks1);
               subtasks3 = (if str_includes words ''test'' \<or> str_includes words ''qa''
                               \<or> str_includes words ''quality''
                            then subtasks2 @ [testingTask] else subtasks2);
               subtasks4 = (if str_includes words ''deploy'' \<or> str_includes words ''launch''
                               \<or> str_includes words ''release''
                            then subtasks3 @ [deploymentTask] else subtasks3);
               subtasks5 = (if teamSize > 1 then subtasks4 @ [coordinationTask] else subtasks4);
               subtasks = subtasks5 @ [reviewTask subtasks5];
               totalHours = foldl (\<lambda>sum task. sum + task_estimatedHours task) 0 subtasks
           in Inr \<lparr>res_success = True,
                   res_subtasks = take 6 subtasks,
                   res_reasoning = ''Tasks generated using keyword analysis and best practices for goal completion'',
                   res_estimatedTotalHours = totalHours,
                   res_criticalPath = map task_title (take 3 subtasks),
                   res_tips = [''Break down large tasks into smaller, manageable chunks'',
                               ''Set clear deadlines for each subtask'',
                               ''Review progress regularly and adjust as needed''],
                   res_generatedBy = ''fallback-algorithm''\<rparr>))"

section \<open>Example inputs and states\<close>

text \<open>A request body with no field set, and a date parser that accepts nothing.\<close>

definition emptyInput :: goalInput where
  "emptyInput = \<lparr>in_title = None, in_description = None, in_priority = None, in_status = None,
     in_dueDate = None, in_projectId = None, in_subtasks = None\<rparr>"

definition noDate :: "string \<Rightarrow> string option" where
  "noDate v = None"

text \<open>
  The demo data, seeded while the clock runs from 10; the commands below read the clock
  at later times.
\<close>

definition demoDates :: "nat \<Rightarrow> nat" where
  "demoDates k = 10 + k"

definition laterDates :: "nat \<Rightarrow> nat" where
  "laterDates k = 30 + k"

definition demoData :: store where
  "demoData = seedDemoData demoDates"

text \<open>
  The demo data after its owner has paused the second goal and then ticked the first
  of its two subtasks; and the answers to ticking, and to marking as completed, the
  second subtask of the first goal.
\<close>

definition pausedDemo :: store where
  "pausedDemo =
     snd (GoalController_toggleSubtask 42 43 ''user-1'' ''subtask-4''
            (snd (updateGoal noDate 40 ''user-1'' ''goal-2''
                    (emptyInput\<lparr>in_status := Some ''PAUSED''\<rparr>) demoData)))"

definition demoToggle :: "(error + subtask) \<times> store" where
  "demoToggle = GoalController_toggleSubtask 40 41 ''user-1'' ''subtask-2'' demoData"

definition markCompleted :: subtaskUpdate where
  "markCompleted = \<lparr>su_title = None, su_description = None, su_completed = Some (JBool True)\<rparr>"

definition demoMark :: "(error + subtask) \<times> store" where
  "demoMark = GoalController_updateSubtask 40 41 ''user-1'' ''goal-1'' ''subtask-2'' markCompleted demoData"

text \<open>A goal created with its only subtask already completed: ACTIVE, against the rule.\<close>

definition completedSubtaskInput :: goalInput where
  "completedSubtaskInput =
     emptyInput\<lparr>in_title := Some ''Ship it'',
       in_subtasks := Some [\<lparr>rs_id = None, rs_title = Some ''Done already'',
                              rs_description = None, rs_completed = Some True\<rparr>]\<rparr>"

definition inconsistentDemo :: store where
  "inconsistentDemo = snd (createGoal noDate laterDates ''user-1'' completedSubtaskInput demoData)"

text \<open>
  The demo data after an update has stored \<open>null\<close> as the \<open>completed\<close> field of the first
  subtask; the demo data after its owner has paused the second goal, which has two open
  subtasks, and the answer to ticking the first of them; and two toggles in a row.
\<close>

definition markNull :: subtaskUpdate where
  "markNull = \<lparr>su_title = None, su_description = None, su_completed = Some JNull\<rparr>"

definition nullDemo :: store where
  "nullDemo = snd (GoalController_updateSubtask 40 41 ''user-1'' ''goal-1'' ''subtask-1'' markNull demoData)"

definition pausedOpenDemo :: store where
  "pausedOpenDemo =
     snd (updateGoal noDate 40 ''user-1'' ''goal-2'' (emptyInput\<lparr>in_status := Some ''PAUSED''\<rparr>) demoData)"

definition demoPausedToggle :: "(error + subtask) \<times> store" where
  "demoPausedToggle = GoalController_toggleSubtask 50 51 ''user-1'' ''subtask-4'' pausedOpenDemo"

definition toggleTwice :: "string \<Rightarrow> string \<Rightarrow> store \<Rightarrow> store" where
  "toggleTwice userId subtaskId s =
     snd (GoalController_toggleSubtask 52 53 userId subtaskId
            (snd (GoalController_toggleSubtask 50 51 userId subtaskId s)))"

text \<open>An Add Subtask request that asks for a completed subtask; a deletion on the demo data.\<close>

definition demoBody :: addSubtaskBody where
  "demoBody = \<lparr>body_title = Some ''Write release notes'', body_description = None,
               body_completed = Some (JBool True)\<rparr>"

definition demoAdd :: "(error + subtask) \<times> store" where
  "demoAdd = GoalController_addSubtask 40 41 ''user-1'' ''goal-1'' demoBody demoData"

definition demoSubtaskData :: subtaskData where
  "demoSubtaskData = \<lparr>sd_title = Some ''Write release notes'', sd_description = None,
      sd_estimatedHours = None, sd_category = None, sd_skills = None, sd_dependencies = None\<rparr>"

definition demoAddPrisma :: "(error + subtask) \<times> database" where
  "demoAddPrisma =
     addSubtask_prisma 40 ''row-1'' ''user-1'' ''goal-1'' demoSubtaskData (databaseOf demoData)"



text \<open>\<open>String.prototype.trim\<close>, on the ASCII white space.\<close>

definition isSpace :: "char \<Rightarrow> bool" where
  "isSpace c = (c \<in> set [CHR '' '', CHR 0x09, CHR 0x0A, CHR 0x0B, CHR 0x0C, CHR 0x0D])"

definition trim :: "string \<Rightarrow> string" where
  "trim s = rev (dropWhile isSpace (rev (dropWhile isSpace s)))"

text \<open>
  The fields of a goal input other than the title pass their schemas: the priority and
  the status are absent or in their enum, the due date is absent, empty or a valid date,
  and every supplied subtask has a title of at least one character.
\<close>

definition otherFieldsPass :: "(string \<Rightarrow> string option) \<Rightarrow> goalInput \<Rightarrow> bool" where
  "otherFieldsPass toISO input =
     (enumIssues prioritySchema (in_priority input) = []
      \<and> enumIssues statusSchema (in_status input) = []
      \<and> \<not> isl (dueDateTransform toISO (in_dueDate input))
      \<and> concat (map subtaskSchemaIssues
                   (case in_subtasks input of None \<Rightarrow> [] | Some rs \<Rightarrow> rs)) = [])"

text \<open>Goal inputs with a blank, an empty and no title, and the commands that take them.\<close>

definition blankTitleInput :: goalInput where
  "blankTitleInput = emptyInput\<lparr>in_title := Some ''   ''\<rparr>"

definition emptyTitleInput :: goalInput where
  "emptyTitleInput = emptyInput\<lparr>in_title := Some []\<rparr>"

definition demoCreate :: "(error + goal \<times> subtask list) \<times> store" where
  "demoCreate = createGoal noDate laterDates ''user-1'' blankTitleInput demoData"

definition demoUpdate :: "(error + goal \<times> subtask list) \<times> store" where
  "demoUpdate = updateGoal noDate 40 ''user-1'' ''goal-1'' blankTitleInput demoData"

definition demoUpdateNoTitle :: "(error + goal \<times> subtask list) \<times> store" where
  "demoUpdateNoTitle = updateGoal noDate 40 ''user-1'' ''goal-1'' emptyInput demoData"

text \<open>The context of the checkout scenario, and one of a team of three.\<close>

definition checkoutContext :: fallbackContext where
  "checkoutContext = \<lparr>ctx_priority = None, ctx_teamSize = Some 1\<rparr>"

definition teamContext :: fallbackContext where
  "teamContext = \<lparr>ctx_priority = Some ''HIGH'', ctx_teamSize = Some 3\<rparr>"

text \<open>
  The list that \<open>generateSubtasksFallback\<close> has built when it reaches the final review:
  the scope task, then the tasks of the keyword groups and of the team, in that order.
\<close>

definition fallbackTasks :: "string \<Rightarrow> rat \<Rightarrow> suggestedTask list" where
  "fallbackTasks goalDescription teamSize =
     (let words = toLowerCase goalDescription;
          subtasks1 = [scopeTask goalDescription];
          subtasks2 = (if str_includes words ''develop'' \<or> str_includes words ''build''
                          \<or> str_includes words ''create''
                       then subtasks1 @ [setupTask, implementTask] else subtasks1);
          subtasks3 = (if str_includes words ''test'' \<or> str_includes words ''qa''
                          \<or> str_includes words ''quality''
                       then subtasks2 @ [testingTask] else subtasks2);
          subtasks4 = (if str_includes words ''deploy'' \<or> str_includes words ''launch''
                          \<or> str_includes words ''release''
                       then subtasks3 @ [deploymentTask] else subtasks3)
      in (if teamSize > 1 then subtasks4 @ [coordinationTask] else subtasks4))"

text \<open>The status that the completion rule leaves on a goal with at least one subtask.\<close>

definition ruleStatus :: "bool \<Rightarrow> status \<Rightarrow> status" where
  "ruleStatus allCompleted st =
     (if allCompleted then COMPLETED else if st = COMPLETED then ACTIVE else st)"

section \<open>Properties of the association lists\<close>

lemma Map_get_Map_set_same: "Map_get (Map_set m k v) k = Some v"
  by (induction m) auto

lemma Map_get_Map_set_other: "k' \<noteq> k \<Longrightarrow> Map_get (Map_set m k v) k' = Map_get m k'"
  by (induction m) auto

lemma Map_set_Map_set: "Map_set (Map_set m k v) k w = Map_set m k w"
  by (induction m) auto

lemma Map_set_unchanged: "Map_get m k = Some v \<Longrightarrow> Map_set m k v = m"
  by (induction m) (auto split: if_splits)

lemma value_in_Map_set: "v \<in> set (Map_values (Map_set m k v))"
  by (induction m) (auto simp: Map_values_def)

text \<open>The keys of a \<open>Map\<close> are distinct, and the three operations keep them so.\<close>

lemma keys_Map_set: "fst ` set (Map_set m k v) = insert k (fst ` set m)"
  by (induction m) auto

lemma distinct_Map_set: "distinct (map fst m) \<Longrightarrow> distinct (map fst (Map_set m k v))"
proof (induction m)
  case Nil
  then show ?case by simp
next
  case (Cons p m)
  have "fst p \<notin> fst ` set (Map_set m k v)" if "fst p \<noteq> k"
    using Cons.prems that by (simp add: keys_Map_set)
  with Cons show ?case by auto
qed

lemma distinct_Map_delete: "distinct (map fst m) \<Longrightarrow> distinct (map fst (Map_delete m k))"
  by (simp add: Map_delete_def distinct_map_filter)


lemma Map_set_same_image:
  "Map_get m k = Some v \<Longrightarrow> f v' = f v \<Longrightarrow>
     map f (Map_values (Map_set m k v')) = map f (Map_values m)"
  by (induction m) (auto simp: Map_values_def split: if_splits)

lemma Map_get_in_values: "Map_get m k = Some v \<Longrightarrow> v \<in> set (Map_values m)"
  by (induction m) (auto simp: Map_values_def split: if_splits)

lemma list_all_filter_image:
  "map (\<lambda>x. (Q x, P x)) xs = map (\<lambda>x. (Q x, P x)) ys \<Longrightarrow>
     list_all P (filter Q xs) = list_all P (filter Q ys)"
proof (induction xs arbitrary: ys)
  case Nil
  then show ?case by simp
next
  case (Cons x xs)
  then obtain y ys' where ys: "ys = y # ys'" by (cases ys) auto
  with Cons.prems have "Q x = Q y" "P x = P y"
    and "map (\<lambda>x. (Q x, P x)) xs = map (\<lambda>x. (Q x, P x)) ys'" by auto
  with Cons.IH [of ys'] ys show ?case by simp
qed

section \<open>Changing the completion of a subtask, and the completion rule\<close>

lemma subtasksOfGoal_goals_update [simp]:
  "subtasksOfGoal (s\<lparr>inMemoryGoals := G\<rparr>) g = subtasksOfGoal s g"
  by (simp add: subtasksOfGoal_def)

lemma subtasksOfGoal_cong:
  "inMemorySubtasks s = inMemorySubtasks t \<Longrightarrow> subtasksOfGoal s g = subtasksOfGoal t g"
  by (simp add: subtasksOfGoal_def)

lemma ruleStatus_if:
  "ruleStatus a st = (if a then COMPLETED else if st = COMPLETED then ACTIVE else st)"
  by (simp add: ruleStatus_def)

lemma toggleSubtaskInMemory_Inr:
  assumes "toggleSubtaskInMemory now userId subtaskId s = (Inr subtask, s1)"
  obtains subtask0 goal where
    "Map_get (inMemorySubtasks s) subtaskId = Some subtask0"
    "Map_get (inMemoryGoals s) (subtask_goalId subtask0) = Some goal"
    "goal_ownerId goal = userId"
    "subtask = subtask0\<lparr>subtask_completed := JBool (\<not> truthy (subtask_completed subtask0)),
                        subtask_updatedAt := now\<rparr>"
    "s1 = s\<lparr>inMemorySubtasks := Map_set (inMemorySubtasks s) subtaskId subtask\<rparr>"
  using assms
  by (auto simp: toggleSubtaskInMemory_def Let_def split: option.splits if_splits)

lemma toggleSubtaskInMemory_owned:
  assumes "Map_get (inMemorySubtasks s) subtaskId = Some subtask0"
    and "Map_get (inMemoryGoals s) (subtask_goalId subtask0) = Some goal"
    and "goal_ownerId goal = userId"
  shows "toggleSubtaskInMemory now userId subtaskId s =
           (Inr (subtask0\<lparr>subtask_completed := JBool (\<not> truthy (subtask_completed subtask0)),
                          subtask_updatedAt := now\<rparr>),
            s\<lparr>inMemorySubtasks := Map_set (inMemorySubtasks s) subtaskId
                 (subtask0\<lparr>subtask_completed := JBool (\<not> truthy (subtask_completed subtask0)),
                           subtask_updatedAt := now\<rparr>)\<rparr>)"
  using assms by (simp add: toggleSubtaskInMemory_def Let_def)

lemma updateSubtaskInMemory_Inr:
  assumes "updateSubtaskInMemory now userId goalId subtaskId su s = (Inr subtask, s1)"
  obtains subtask0 goal where
    "Map_get (inMemorySubtasks s) subtaskId = Some subtask0"
    "subtask_goalId subtask0 = goalId"
    "Map_get (inMemoryGoals s) goalId = Some goal"
    "goal_ownerId goal = userId"
    "subtask_goalId subtask = goalId"
    "subtask_completed subtask =
       (case su_completed su of None \<Rightarrow> subtask_completed subtask0 | Some c \<Rightarrow> c)"
    "s1 = s\<lparr>inMemorySubtasks := Map_set (inMemorySubtasks s) subtaskId subtask\<rparr>"
  using assms
  by (auto simp: updateSubtaskInMemory_def Let_def split: option.splits if_splits)

text \<open>
  The recompute, run on a store in which the goal is the caller's and has a subtask:
  it succeeds, leaves the subtasks alone, and changes the one goal as the rule says.
\<close>

lemma checkAndUpdate_owned:
  assumes g: "Map_get (inMemoryGoals s) goalId = Some goal"
    and own: "goal_ownerId goal = userId"
    and ne: "subtasksOfGoal s goalId \<noteq> []"
  obtains goal1 where
    "checkAndUpdateGoalCompletionInMemory now userId goalId s =
       (Inr (), s\<lparr>inMemoryGoals := Map_set (inMemoryGoals s) goalId goal1\<rparr>)"
    "goal_status goal1 =
       ruleStatus (list_all (\<lambda>x. truthy (subtask_completed x)) (subtasksOfGoal s goalId))
                  (goal_status goal)"
    "goal_ownerId goal1 = userId"
proof -
  let ?all = "list_all (\<lambda>x. truthy (subtask_completed x)) (subtasksOfGoal s goalId)"
  have len: "length (subtasksOfGoal s goalId) > 0"
    using ne by simp
  show ?thesis
  proof (cases "?all = (goal_status goal = COMPLETED)")
    case True
    then have st: "goal_status goal = ruleStatus ?all (goal_status goal)"
      by (auto simp: ruleStatus_def)
    have same: "s\<lparr>inMemoryGoals := Map_set (inMemoryGoals s) goalId goal\<rparr> = s"
      using g by (simp add: Map_set_unchanged)
    have "checkAndUpdateGoalCompletionInMemory now userId goalId s = (Inr (), s)"
      using True g own len
      by (auto simp: checkAndUpdateGoalCompletionInMemory_def Let_def)
    with same st own show ?thesis
      using that [of goal] by simp
  next
    case False
    let ?goal1 = "goal\<lparr>goal_status := ruleStatus ?all (goal_status goal), goal_updatedAt := now\<rparr>"
    have "checkAndUpdateGoalCompletionInMemory now userId goalId s =
            (Inr (), s\<lparr>inMemoryGoals := Map_set (inMemoryGoals s) goalId ?goal1\<rparr>)"
      using False g own len
      by (auto simp: checkAndUpdateGoalCompletionInMemory_def Let_def ruleStatus_def)
    then show ?thesis
      using that [of ?goal1] own by simp
  qed
qed

lemma recompute_after_change:
  assumes sub: "Map_get (inMemorySubtasks s) subtaskId = Some subtask0"
    and gid: "subtask_goalId subtask0 = goalId"
    and g: "Map_get (inMemoryGoals s) goalId = Some goal"
    and own: "goal_ownerId goal = userId"
    and gid': "subtask_goalId subtask = goalId"
    and s1: "s1 = s\<lparr>inMemorySubtasks := Map_set (inMemorySubtasks s) subtaskId subtask\<rparr>"
  obtains goal1 where
    "checkAndUpdateGoalCompletionInMemory now userId goalId s1 =
       (Inr (), s1\<lparr>inMemoryGoals := Map_set (inMemoryGoals s) goalId goal1\<rparr>)"
    "goal_status goal1 =
       ruleStatus (list_all (\<lambda>x. truthy (subtask_completed x)) (subtasksOfGoal s1 goalId))
                  (goal_status goal)"
    "goal_ownerId goal1 = userId"
    "subtask \<in> set (subtasksOfGoal s1 goalId)"
proof -
  have mem: "subtask \<in> set (subtasksOfGoal s1 goalId)"
    by (simp add: s1 subtasksOfGoal_def value_in_Map_set gid')
  then have ne: "subtasksOfGoal s1 goalId \<noteq> []" by auto
  have g1: "Map_get (inMemoryGoals s1) goalId = Some goal"
    using g by (simp add: s1)
  from checkAndUpdate_owned [OF g1 own ne, of now] obtain goal1 where
    c: "checkAndUpdateGoalCompletionInMemory now userId goalId s1 =
       (Inr (), s1\<lparr>inMemoryGoals := Map_set (inMemoryGoals s1) goalId goal1\<rparr>)"
    and st: "goal_status goal1 =
       ruleStatus (list_all (\<lambda>x. truthy (subtask_completed x)) (subtasksOfGoal s1 goalId))
                  (goal_status goal)"
    and o: "goal_ownerId goal1 = userId"
    by blast
  have "inMemoryGoals s1 = inMemoryGoals s" by (simp add: s1)
  with c st o mem show ?thesis using that [of goal1] by simp
qed

text \<open>
  Both controllers, once they have succeeded: the store they leave differs from the one
  they found in the entry of the subtask and in the entry of its goal.
\<close>

lemma completion_change_Inr:
  assumes "GoalController_toggleSubtask now1 now2 userId subtaskId s = (Inr subtask, s')
           \<or> (su_completed body \<noteq> None
               \<and> GoalController_updateSubtask now1 now2 userId goalId subtaskId body s = (Inr subtask, s'))"
  obtains subtask0 goal0 goal1 where
    "Map_get (inMemorySubtasks s) subtaskId = Some subtask0"
    "subtask_goalId subtask0 = subtask_goalId subtask"
    "Map_get (inMemoryGoals s) (subtask_goalId subtask) = Some goal0"
    "goal_ownerId goal0 = userId"
    "goal_ownerId goal1 = userId"
    "s' = s\<lparr>inMemorySubtasks := Map_set (inMemorySubtasks s) subtaskId subtask,
            inMemoryGoals := Map_set (inMemoryGoals s) (subtask_goalId subtask) goal1\<rparr>"
    "goal_status goal1 =
       ruleStatus (list_all (\<lambda>x. truthy (subtask_completed x))
                     (subtasksOfGoal s' (subtask_goalId subtask)))
                  (goal_status goal0)"
    "subtask \<in> set (subtasksOfGoal s' (subtask_goalId subtask))"
  using assms
proof
  assume a: "GoalController_toggleSubtask now1 now2 userId subtaskId s = (Inr subtask, s')"
  then obtain s1 where t: "toggleSubtaskInMemory now1 userId subtaskId s = (Inr subtask, s1)"
    and c: "checkAndUpdateGoalCompletionInMemory now2 userId (subtask_goalId subtask) s1 = (Inr (), s')"
    by (auto simp: GoalController_toggleSubtask_def split: prod.splits sum.splits)
  from t obtain subtask0 goal0 where
    sub: "Map_get (inMemorySubtasks s) subtaskId = Some subtask0" and
    g: "Map_get (inMemoryGoals s) (subtask_goalId subtask0) = Some goal0" and
    own: "goal_ownerId goal0 = userId" and
    st: "subtask = subtask0\<lparr>subtask_completed := JBool (\<not> truthy (subtask_completed subtask0)),
                        subtask_updatedAt := now1\<rparr>" and
    s1: "s1 = s\<lparr>inMemorySubtasks := Map_set (inMemorySubtasks s) subtaskId subtask\<rparr>"
    by (rule toggleSubtaskInMemory_Inr)
  have gid: "subtask_goalId subtask0 = subtask_goalId subtask" by (simp add: st)
  from g gid have g': "Map_get (inMemoryGoals s) (subtask_goalId subtask) = Some goal0" by simp
  from recompute_after_change [OF sub gid g' own refl s1, of now2] c
  obtain goal1 where
    "s' = s1\<lparr>inMemoryGoals := Map_set (inMemoryGoals s) (subtask_goalId subtask) goal1\<rparr>"
    "goal_status goal1 =
       ruleStatus (list_all (\<lambda>x. truthy (subtask_completed x)) (subtasksOfGoal s1 (subtask_goalId subtask)))
                  (goal_status goal0)"
    "goal_ownerId goal1 = userId"
    "subtask \<in> set (subtasksOfGoal s1 (subtask_goalId subtask))"
    by auto
  with sub gid g' own s1 show ?thesis
    using that [of subtask0 goal0 goal1] by simp
next
  assume "su_completed body \<noteq> None
          \<and> GoalController_updateSubtask now1 now2 userId goalId subtaskId body s = (Inr subtask, s')"
  then have b: "su_completed body \<noteq> None"
    and a: "GoalController_updateSubtask now1 now2 userId goalId subtaskId body s = (Inr subtask, s')"
    by simp_all
  from a b obtain s1 where t: "updateSubtaskInMemory now1 userId goalId subtaskId body s = (Inr subtask, s1)"
    and c: "checkAndUpdateGoalCompletionInMemory now2 userId goalId s1 = (Inr (), s')"
    by (auto simp: GoalController_updateSubtask_def split: prod.splits sum.splits)
  from t obtain subtask0 goal0 where
    sub: "Map_get (inMemorySubtasks s) subtaskId = Some subtask0" and
    gid0: "subtask_goalId subtask0 = goalId" and
    g: "Map_get (inMemoryGoals s) goalId = Some goal0" and
    own: "goal_ownerId goal0 = userId" and
    gid': "subtask_goalId subtask = goalId" and
    s1: "s1 = s\<lparr>inMemorySubtasks := Map_set (inMemorySubtasks s) subtaskId subtask\<rparr>"
    by (rule updateSubtaskInMemory_Inr)
  from recompute_after_change [OF sub gid0 g own gid' s1, of now2] c
  obtain goal1 where
    "s' = s1\<lparr>inMemoryGoals := Map_set (inMemoryGoals s) goalId goal1\<rparr>"
    "goal_status goal1 =
       ruleStatus (list_all (\<lambda>x. truthy (subtask_completed x)) (subtasksOfGoal s1 goalId))
                  (goal_status goal0)"
    "goal_ownerId goal1 = userId"
    "subtask \<in> set (subtasksOfGoal s1 goalId)"
    by auto
  with sub gid0 gid' g own s1 show ?thesis
    using that [of subtask0 goal0 goal1] by simp
qed

text \<open>
  Claim C1, as amended. Two commands change the completion of a subtask and run the
  completion recompute after it: the toggle, and the update of a subtask whose body has
  a \<open>completed\<close> field. When either has succeeded, the goal of the changed subtask is
  in the store and has at least one subtask, the changed one. Its status is COMPLETED if
  every one of its subtasks has a truthy \<open>completed\<close> value; otherwise it is ACTIVE if
  it was COMPLETED before, and otherwise it is the status the goal had before. So the
  status is COMPLETED if and only if all subtasks are completed, whatever it was before:
  PAUSED and CANCELLED are not set apart by the rule, and such a goal keeps its status
  until its last open subtask is completed. No other goal is changed.
\<close>

theorem completion_rule_after_change:
  assumes "GoalController_toggleSubtask now1 now2 userId subtaskId s = (Inr subtask, s')
           \<or> (su_completed body \<noteq> None
               \<and> GoalController_updateSubtask now1 now2 userId goalId subtaskId body s = (Inr subtask, s'))"
  shows "\<exists>goal0 goal1.
           Map_get (inMemoryGoals s) (subtask_goalId subtask) = Some goal0
           \<and> Map_get (inMemoryGoals s') (subtask_goalId subtask) = Some goal1
           \<and> subtask \<in> set (subtasksOfGoal s' (subtask_goalId subtask))
           \<and> (goal_status goal1 = COMPLETED
                \<longleftrightarrow> list_all (\<lambda>x. truthy (subtask_completed x))
                      (subtasksOfGoal s' (subtask_goalId subtask)))
           \<and> goal_status goal1 =
               (if list_all (\<lambda>x. truthy (subtask_completed x))
                     (subtasksOfGoal s' (subtask_goalId subtask))
                then COMPLETED
                else if goal_status goal0 = COMPLETED then ACTIVE
                else goal_status goal0)
           \<and> (\<forall>g. g \<noteq> subtask_goalId subtask
                  \<longrightarrow> Map_get (inMemoryGoals s') g = Map_get (inMemoryGoals s) g)"
proof -
  from assms obtain subtask0 goal0 goal1 where
    g0: "Map_get (inMemoryGoals s) (subtask_goalId subtask) = Some goal0" and
    s': "s' = s\<lparr>inMemorySubtasks := Map_set (inMemorySubtasks s) subtaskId subtask,
            inMemoryGoals := Map_set (inMemoryGoals s) (subtask_goalId subtask) goal1\<rparr>" and
    st: "goal_status goal1 =
       ruleStatus (list_all (\<lambda>x. truthy (subtask_completed x))
                     (subtasksOfGoal s' (subtask_goalId subtask)))
                  (goal_status goal0)" and
    mem: "subtask \<in> set (subtasksOfGoal s' (subtask_goalId subtask))"
    by (rule completion_change_Inr)
  have g1: "Map_get (inMemoryGoals s') (subtask_goalId subtask) = Some goal1"
    by (simp add: s' Map_get_Map_set_same)
  have other: "\<forall>g. g \<noteq> subtask_goalId subtask
                  \<longrightarrow> Map_get (inMemoryGoals s') g = Map_get (inMemoryGoals s) g"
    by (simp add: s' Map_get_Map_set_other)
  have iff: "goal_status goal1 = COMPLETED
                \<longleftrightarrow> list_all (\<lambda>x. truthy (subtask_completed x))
                      (subtasksOfGoal s' (subtask_goalId subtask))"
    unfolding st by (simp add: ruleStatus_def)
  from g0 g1 mem iff st [unfolded ruleStatus_if] other show ?thesis by blast
qed

theorem completion_rule_after_change_witness:
  "demoToggle = (Inr (projr (fst demoToggle)), snd demoToggle)
   \<and> (\<exists>goal0 goal1.
           Map_get (inMemoryGoals demoData) (subtask_goalId (projr (fst demoToggle))) = Some goal0
           \<and> Map_get (inMemoryGoals (snd demoToggle)) (subtask_goalId (projr (fst demoToggle))) = Some goal1
           \<and> projr (fst demoToggle)
                \<in> set (subtasksOfGoal (snd demoToggle) (subtask_goalId (projr (fst demoToggle))))
           \<and> (goal_status goal1 = COMPLETED
                \<longleftrightarrow> list_all (\<lambda>x. truthy (subtask_completed x))
                      (subtasksOfGoal (snd demoToggle) (subtask_goalId (projr (fst demoToggle)))))
           \<and> goal_status goal1 =
               (if list_all (\<lambda>x. truthy (subtask_completed x))
                     (subtasksOfGoal (snd demoToggle) (subtask_goalId (projr (fst demoToggle))))
                then COMPLETED
                else if goal_status goal0 = COMPLETED then ACTIVE
                else goal_status goal0)
           \<and> (\<forall>g. g \<noteq> subtask_goalId (projr (fst demoToggle))
                  \<longrightarrow> Map_get (inMemoryGoals (snd demoToggle)) g = Map_get (inMemoryGoals demoData) g))
   \<and> su_completed markCompleted \<noteq> None
   \<and> demoMark = (Inr (projr (fst demoMark)), snd demoMark)
   \<and> (\<exists>goal0 goal1.
           Map_get (inMemoryGoals demoData) (subtask_goalId (projr (fst demoMark))) = Some goal0
           \<and> Map_get (inMemoryGoals (snd demoMark)) (subtask_goalId (projr (fst demoMark))) = Some goal1
           \<and> projr (fst demoMark)
                \<in> set (subtasksOfGoal (snd demoMark) (subtask_goalId (projr (fst demoMark))))
           \<and> (goal_status goal1 = COMPLETED
                \<longleftrightarrow> list_all (\<lambda>x. truthy (subtask_completed x))
                      (subtasksOfGoal (snd demoMark) (subtask_goalId (projr (fst demoMark)))))
           \<and> goal_status goal1 =
               (if list_all (\<lambda>x. truthy (subtask_completed x))
                     (subtasksOfGoal (snd demoMark) (subtask_goalId (projr (fst demoMark))))
                then COMPLETED
                else if goal_status goal0 = COMPLETED then ACTIVE
                else goal_status goal0)
           \<and> (\<forall>g. g \<noteq> subtask_goalId (projr (fst demoMark))
                  \<longrightarrow> Map_get (inMemoryGoals (snd demoMark)) g = Map_get (inMemoryGoals demoData) g))"
proof -
  have h: "demoToggle = (Inr (projr (fst demoToggle)), snd demoToggle)"
    by code_simp
  have h': "GoalController_toggleSubtask 40 41 ''user-1'' ''subtask-2'' demoData
             = (Inr (projr (fst demoToggle)), snd demoToggle)"
    by (rule trans [OF demoToggle_def [symmetric] h])
  have b: "su_completed markCompleted \<noteq> None"
    by (simp add: markCompleted_def)
  have m: "demoMark = (Inr (projr (fst demoMark)), snd demoMark)"
    by code_simp
  have m': "GoalController_updateSubtask 40 41 ''user-1'' ''goal-1'' ''subtask-2'' markCompleted demoData
             = (Inr (projr (fst demoMark)), snd demoMark)"
    by (rule trans [OF demoMark_def [symmetric] m])
  note T1 = completion_rule_after_change [OF disjI1 [OF h']]
  note T2 = completion_rule_after_change [OF disjI2 [OF conjI [OF b m']]]
  from h T1 b m T2 show ?thesis
    by - ((rule conjI, assumption)+, assumption)
qed

text \<open>
  Claim C1 as stated fails. A goal whose status is PAUSED before the recompute is set
  to COMPLETED by it, as soon as the toggle completes its last open subtask. And the
  recompute looks at the goal of the toggled subtask only: a goal created ACTIVE with its
  only subtask already completed stays so when a subtask of another goal is toggled.
\<close>

theorem paused_goal_resurrected:
  "map_option goal_status (Map_get (inMemoryGoals pausedDemo) ''goal-2'') = Some PAUSED
   \<and> map_option goal_status
        (Map_get (inMemoryGoals (snd (GoalController_toggleSubtask 50 51 ''user-1'' ''subtask-5'' pausedDemo)))
           ''goal-2'') = Some COMPLETED
   \<and> map_option goal_status
        (Map_get (inMemoryGoals (snd (GoalController_toggleSubtask 50 51 ''user-1'' ''subtask-2'' inconsistentDemo)))
           ''goal-3'') = Some ACTIVE
   \<and> map subtask_completed
        (subtasksOfGoal (snd (GoalController_toggleSubtask 50 51 ''user-1'' ''subtask-2'' inconsistentDemo))
           ''goal-3'') = [JBool True]"
  by code_simp

section \<open>Toggling twice\<close>

lemma controller_toggle_succeeds:
  assumes sub: "Map_get (inMemorySubtasks s) subtaskId = Some subtask0"
    and g: "Map_get (inMemoryGoals s) (subtask_goalId subtask0) = Some goal"
    and own: "goal_ownerId goal = userId"
  shows "\<exists>s'. GoalController_toggleSubtask now1 now2 userId subtaskId s =
           (Inr (subtask0\<lparr>subtask_completed := JBool (\<not> truthy (subtask_completed subtask0)),
                          subtask_updatedAt := now1\<rparr>), s')"
proof -
  let ?subtask = "subtask0\<lparr>subtask_completed := JBool (\<not> truthy (subtask_completed subtask0)),
                          subtask_updatedAt := now1\<rparr>"
  let ?s1 = "s\<lparr>inMemorySubtasks := Map_set (inMemorySubtasks s) subtaskId ?subtask\<rparr>"
  have t: "toggleSubtaskInMemory now1 userId subtaskId s = (Inr ?subtask, ?s1)"
    using toggleSubtaskInMemory_owned [OF sub g own] .
  have gid: "subtask_goalId ?subtask = subtask_goalId subtask0" by simp
  from recompute_after_change [OF sub refl g own gid refl, of now2]
  obtain goal1 where
    "checkAndUpdateGoalCompletionInMemory now2 userId (subtask_goalId subtask0) ?s1 =
       (Inr (), ?s1\<lparr>inMemoryGoals := Map_set (inMemoryGoals s) (subtask_goalId subtask0) goal1\<rparr>)"
    by blast
  then show ?thesis
    unfolding GoalController_toggleSubtask_def t by simp
qed

lemma ruleStatus_twice:
  assumes "\<not> (a0 \<and> a1)"
  shows "ruleStatus a0 (ruleStatus a1 st) = st
         \<longleftrightarrow> (st = COMPLETED \<longleftrightarrow> a0) \<and> (a1 \<longrightarrow> st = ACTIVE)"
  using assms by (cases st) (auto simp: ruleStatus_def)

text \<open>
  Claim C3, as amended. When a toggle (with its recompute) has succeeded on a subtask,
  a second toggle of the same subtask succeeds too, at whatever time. After it the
  \<open>completed\<close> field of the subtask is the boolean of the truthiness it had before the
  first toggle, so it is restored when it was a boolean. The status of the goal is
  restored if and only if, before the first toggle, it was COMPLETED exactly when all
  subtasks of the goal were completed, and it was ACTIVE in case the first toggle
  completed the last open subtask of the goal.
\<close>

theorem toggle_twice:
  assumes t1: "GoalController_toggleSubtask now1 now2 userId subtaskId s = (Inr subtask1, s1)"
  shows "\<exists>subtask0 goal0 subtask2 s2 goal2.
           Map_get (inMemorySubtasks s) subtaskId = Some subtask0
           \<and> Map_get (inMemoryGoals s) (subtask_goalId subtask0) = Some goal0
           \<and> GoalController_toggleSubtask now3 now4 userId subtaskId s1 = (Inr subtask2, s2)
           \<and> Map_get (inMemorySubtasks s2) subtaskId = Some subtask2
           \<and> Map_get (inMemoryGoals s2) (subtask_goalId subtask0) = Some goal2
           \<and> subtask_completed subtask2 = JBool (truthy (subtask_completed subtask0))
           \<and> (goal_status goal2 = goal_status goal0 \<longleftrightarrow>
                (goal_status goal0 = COMPLETED
                   \<longleftrightarrow> list_all (\<lambda>x. truthy (subtask_completed x))
                         (subtasksOfGoal s (subtask_goalId subtask0)))
                \<and> (list_all (\<lambda>x. truthy (subtask_completed x))
                      (subtasksOfGoal s1 (subtask_goalId subtask0))
                    \<longrightarrow> goal_status goal0 = ACTIVE))"
proof -
  let ?done = "\<lambda>x. truthy (subtask_completed x)"
  from t1 obtain sx where tx: "toggleSubtaskInMemory now1 userId subtaskId s = (Inr subtask1, sx)"
    by (auto simp: GoalController_toggleSubtask_def split: prod.splits sum.splits)
  then obtain subtask0 goalx where
    sub: "Map_get (inMemorySubtasks s) subtaskId = Some subtask0" and
    st1: "subtask1 = subtask0\<lparr>subtask_completed := JBool (\<not> truthy (subtask_completed subtask0)),
                        subtask_updatedAt := now1\<rparr>"
    by (rule toggleSubtaskInMemory_Inr)
  let ?gid = "subtask_goalId subtask0"
  have gid1: "subtask_goalId subtask1 = ?gid" by (simp add: st1)
  from disjI1 [OF t1] obtain subtaskA goal0 goal1 where
    g0: "Map_get (inMemoryGoals s) (subtask_goalId subtask1) = Some goal0" and
    own1: "goal_ownerId goal1 = userId" and
    s1: "s1 = s\<lparr>inMemorySubtasks := Map_set (inMemorySubtasks s) subtaskId subtask1,
            inMemoryGoals := Map_set (inMemoryGoals s) (subtask_goalId subtask1) goal1\<rparr>" and
    stat1: "goal_status goal1 =
       ruleStatus (list_all ?done (subtasksOfGoal s1 (subtask_goalId subtask1))) (goal_status goal0)" and
    mem1: "subtask1 \<in> set (subtasksOfGoal s1 (subtask_goalId subtask1))"
    by (rule completion_change_Inr)
  have sub1: "Map_get (inMemorySubtasks s1) subtaskId = Some subtask1"
    by (simp add: s1 Map_get_Map_set_same)
  have g1: "Map_get (inMemoryGoals s1) (subtask_goalId subtask1) = Some goal1"
    by (simp add: s1 Map_get_Map_set_same)
  from controller_toggle_succeeds [OF sub1 g1 own1, of now3 now4] obtain s2 where
    t2: "GoalController_toggleSubtask now3 now4 userId subtaskId s1 =
           (Inr (subtask1\<lparr>subtask_completed := JBool (\<not> truthy (subtask_completed subtask1)),
                          subtask_updatedAt := now3\<rparr>), s2)"
    by blast
  define subtask2 where
    "subtask2 = subtask1\<lparr>subtask_completed := JBool (\<not> truthy (subtask_completed subtask1)),
                          subtask_updatedAt := now3\<rparr>"
  have t2': "GoalController_toggleSubtask now3 now4 userId subtaskId s1 = (Inr subtask2, s2)"
    using t2 by (simp add: subtask2_def)
  have gid2: "subtask_goalId subtask2 = ?gid" by (simp add: subtask2_def gid1)
  have c2: "subtask_completed subtask2 = JBool (truthy (subtask_completed subtask0))"
    by (simp add: subtask2_def st1)
  from disjI1 [OF t2'] obtain subtaskB goalB goal2 where
    gB: "Map_get (inMemoryGoals s1) (subtask_goalId subtask2) = Some goalB" and
    s2: "s2 = s1\<lparr>inMemorySubtasks := Map_set (inMemorySubtasks s1) subtaskId subtask2,
            inMemoryGoals := Map_set (inMemoryGoals s1) (subtask_goalId subtask2) goal2\<rparr>" and
    stat2: "goal_status goal2 =
       ruleStatus (list_all ?done (subtasksOfGoal s2 (subtask_goalId subtask2))) (goal_status goalB)"
    by (rule completion_change_Inr)
  from gB g1 gid1 gid2 have goalB: "goalB = goal1" by simp
  have sub2: "Map_get (inMemorySubtasks s2) subtaskId = Some subtask2"
    by (simp add: s2 Map_get_Map_set_same)
  have g2: "Map_get (inMemoryGoals s2) ?gid = Some goal2"
    by (simp add: s2 gid2 Map_get_Map_set_same)
  have S2: "inMemorySubtasks s2 = Map_set (inMemorySubtasks s) subtaskId subtask2"
    by (simp add: s2 s1 Map_set_Map_set)
  have img: "map (\<lambda>x. (subtask_goalId x = ?gid, ?done x)) (Map_values (inMemorySubtasks s2))
             = map (\<lambda>x. (subtask_goalId x = ?gid, ?done x)) (Map_values (inMemorySubtasks s))"
    unfolding S2 by (rule Map_set_same_image [OF sub]) (simp add: gid2 c2)
  have all2: "list_all ?done (subtasksOfGoal s2 ?gid) = list_all ?done (subtasksOfGoal s ?gid)"
    unfolding subtasksOfGoal_def by (rule list_all_filter_image [OF img])
  have in0: "subtask0 \<in> set (subtasksOfGoal s ?gid)"
    using Map_get_in_values [OF sub] by (simp add: subtasksOfGoal_def)
  have excl: "\<not> (list_all ?done (subtasksOfGoal s ?gid) \<and> list_all ?done (subtasksOfGoal s1 ?gid))"
  proof
    assume a: "list_all ?done (subtasksOfGoal s ?gid) \<and> list_all ?done (subtasksOfGoal s1 ?gid)"
    with in0 have "truthy (subtask_completed subtask0)" by (auto simp: list_all_iff)
    moreover from a mem1 gid1 have "truthy (subtask_completed subtask1)" by (auto simp: list_all_iff)
    ultimately show False by (simp add: st1)
  qed
  have status: "goal_status goal2 =
      ruleStatus (list_all ?done (subtasksOfGoal s ?gid))
        (ruleStatus (list_all ?done (subtasksOfGoal s1 ?gid)) (goal_status goal0))"
    using stat2 stat1 by (simp add: goalB gid1 gid2 all2)
  have iff: "goal_status goal2 = goal_status goal0 \<longleftrightarrow>
                (goal_status goal0 = COMPLETED \<longleftrightarrow> list_all ?done (subtasksOfGoal s ?gid))
                \<and> (list_all ?done (subtasksOfGoal s1 ?gid) \<longrightarrow> goal_status goal0 = ACTIVE)"
    unfolding status by (rule ruleStatus_twice [OF excl])
  from g0 gid1 have g0': "Map_get (inMemoryGoals s) ?gid = Some goal0" by simp
  from sub g0' t2' sub2 g2 c2 iff show ?thesis by blast
qed

theorem toggle_twice_witness:
  "demoPausedToggle = (Inr (projr (fst demoPausedToggle)), snd demoPausedToggle)
   \<and> (\<exists>subtask0 goal0 subtask2 s2 goal2.
           Map_get (inMemorySubtasks pausedOpenDemo) ''subtask-4'' = Some subtask0
           \<and> Map_get (inMemoryGoals pausedOpenDemo) (subtask_goalId subtask0) = Some goal0
           \<and> GoalController_toggleSubtask 52 53 ''user-1'' ''subtask-4'' (snd demoPausedToggle)
                = (Inr subtask2, s2)
           \<and> Map_get (inMemorySubtasks s2) ''subtask-4'' = Some subtask2
           \<and> Map_get (inMemoryGoals s2) (subtask_goalId subtask0) = Some goal2
           \<and> subtask_completed subtask2 = JBool (truthy (subtask_completed subtask0))
           \<and> (goal_status goal2 = goal_status goal0 \<longleftrightarrow>
                (goal_status goal0 = COMPLETED
                   \<longleftrightarrow> list_all (\<lambda>x. truthy (subtask_completed x))
                         (subtasksOfGoal pausedOpenDemo (subtask_goalId subtask0)))
                \<and> (list_all (\<lambda>x. truthy (subtask_completed x))
                      (subtasksOfGoal (snd demoPausedToggle) (subtask_goalId subtask0))
                    \<longrightarrow> goal_status goal0 = ACTIVE)))
   \<and> map_option goal_status (Map_get (inMemoryGoals pausedOpenDemo) ''goal-2'') = Some PAUSED
   \<and> map_option goal_status
        (Map_get (inMemoryGoals (toggleTwice ''user-1'' ''subtask-4'' pausedOpenDemo)) ''goal-2'')
        = Some PAUSED"
proof -
  have h: "demoPausedToggle = (Inr (projr (fst demoPausedToggle)), snd demoPausedToggle)"
    by code_simp
  have h': "GoalController_toggleSubtask 50 51 ''user-1'' ''subtask-4'' pausedOpenDemo
             = (Inr (projr (fst demoPausedToggle)), snd demoPausedToggle)"
    by (rule trans [OF demoPausedToggle_def [symmetric] h])
  note T = toggle_twice [OF h', of 52 53]
  have p: "map_option goal_status (Map_get (inMemoryGoals pausedOpenDemo) ''goal-2'') = Some PAUSED"
    by code_simp
  have q: "map_option goal_status
        (Map_get (inMemoryGoals (toggleTwice ''user-1'' ''subtask-4'' pausedOpenDemo)) ''goal-2'')
        = Some PAUSED"
    by code_simp
  from h T p q show ?thesis
    by - ((rule conjI, assumption)+, assumption)
qed

text \<open>
  Claim C3 as stated fails. A PAUSED goal whose last open subtask is toggled twice ends
  ACTIVE; an ACTIVE goal created with its only subtask already completed ends COMPLETED;
  and a \<open>completed\<close> field that an update has set to \<open>null\<close> ends \<open>false\<close>.
\<close>

theorem toggle_twice_changes_status:
  "map_option goal_status (Map_get (inMemoryGoals pausedDemo) ''goal-2'') = Some PAUSED
   \<and> map_option goal_status
        (Map_get (inMemoryGoals (toggleTwice ''user-1'' ''subtask-5'' pausedDemo)) ''goal-2'') = Some ACTIVE
   \<and> map_option goal_status (Map_get (inMemoryGoals inconsistentDemo) ''goal-3'') = Some ACTIVE
   \<and> map_option goal_status
        (Map_get (inMemoryGoals (toggleTwice ''user-1'' ''subtask-6'' inconsistentDemo)) ''goal-3'')
        = Some COMPLETED
   \<and> map_option subtask_completed (Map_get (inMemorySubtasks nullDemo) ''subtask-1'') = Some JNull
   \<and> map_option subtask_completed
        (Map_get (inMemorySubtasks (toggleTwice ''user-1'' ''subtask-1'' nullDemo)) ''subtask-1'')
        = Some (JBool False)"
  by code_simp

section \<open>Titles of goals\<close>

lemma requiredMin1_missing:
  "v = None \<or> v = Some [] \<Longrightarrow> \<exists>m. requiredMin1 msg v = [m] \<and> (m = ZodRequired \<or> m = Text msg)"
  by (auto simp: requiredMin1_def)

lemma requiredMin1_ok:
  "requiredMin1 msg v = [] \<Longrightarrow> \<exists>t. v = Some t \<and> t \<noteq> []"
  by (auto simp: requiredMin1_def split: option.splits if_splits)

lemma optionalMin1_empty: "optionalMin1 msg (Some []) = [Text msg]"
  by (simp add: optionalMin1_def)

lemma optionalMin1_ok: "optionalMin1 msg (Some t) = [] \<Longrightarrow> t \<noteq> []"
  by (auto simp: optionalMin1_def split: if_splits)

lemma dueDateTransform_Inl:
  "dueDateTransform toISO v = Inl e \<Longrightarrow> e = Error (Text ''Invalid date format'')"
  by (auto simp: dueDateTransform_def split: option.splits if_splits)

lemma goalSchema_title_missing:
  assumes "in_title input = None \<or> in_title input = Some []"
  shows "goalSchema toISO input = Inl (Error ZodRequired)
         \<or> goalSchema toISO input = Inl (Error (Text ''Goal title is required''))
         \<or> goalSchema toISO input = Inl (Error (Text ''Invalid date format''))"
proof -
  from requiredMin1_missing [OF assms, of "''Goal title is required''"]
  obtain m where m: "requiredMin1 ''Goal title is required'' (in_title input) = [m]"
    and mm: "m = ZodRequired \<or> m = Text ''Goal title is required''" by blast
  show ?thesis
  proof (cases "dueDateTransform toISO (in_dueDate input)")
    case (Inl e)
    then have "goalSchema toISO input = Inl e"
      unfolding goalSchema_def Let_def by (simp only: sum.case)
    with dueDateTransform_Inl [OF Inl] show ?thesis by simp
  next
    case (Inr dueDate)
    then have "goalSchema toISO input = Inl (Error m)"
      unfolding goalSchema_def Let_def by (simp only: sum.case m append_Cons list.case)
    with mm show ?thesis by auto
  qed
qed

lemma goalSchema_Inr:
  assumes "goalSchema toISO input = Inr v"
  shows "\<exists>t. in_title input = Some t \<and> t \<noteq> [] \<and> v_title v = t"
proof (cases "dueDateTransform toISO (in_dueDate input)")
  case (Inl e)
  then have "goalSchema toISO input = Inl e"
    unfolding goalSchema_def Let_def by (simp only: sum.case)
  with assms show ?thesis by simp
next
  case (Inr dueDate)
  show ?thesis
  proof (cases "requiredMin1 ''Goal title is required'' (in_title input)")
    case Nil
    then obtain t where t: "in_title input = Some t" "t \<noteq> []"
      using requiredMin1_ok by blast
    from assms have "v_title v = t"
      unfolding goalSchema_def Let_def
      by (simp only: sum.case Inr t option.case split: list.splits) auto
    with t show ?thesis by simp
  next
    case (Cons m ms)
    then have "goalSchema toISO input = Inl (Error m)"
      unfolding goalSchema_def Let_def by (simp only: sum.case Inr Cons append_Cons list.case)
    with assms show ?thesis by simp
  qed
qed

lemma updateGoalSchema_title_empty:
  assumes "in_title input = Some []"
  shows "updateGoalSchema toISO input = Inl (Error (Text ''Goal title is required''))
         \<or> updateGoalSchema toISO input = Inl (Error (Text ''Invalid date format''))"
proof (cases "dueDateTransform toISO (in_dueDate input)")
  case (Inl e)
  then have "updateGoalSchema toISO input = Inl e"
    unfolding updateGoalSchema_def Let_def by (simp only: sum.case)
  with dueDateTransform_Inl [OF Inl] show ?thesis by simp
next
  case (Inr dueDate)
  then have "updateGoalSchema toISO input = Inl (Error (Text ''Goal title is required''))"
    unfolding updateGoalSchema_def Let_def
    by (simp only: sum.case assms optionalMin1_empty append_Cons list.case)
  then show ?thesis by simp
qed

lemma updateGoalSchema_Inr:
  assumes "updateGoalSchema toISO input = Inr v"
  shows "u_title v = in_title input \<and> in_title input \<noteq> Some []"
proof (cases "dueDateTransform toISO (in_dueDate input)")
  case (Inl e)
  then have "updateGoalSchema toISO input = Inl e"
    unfolding updateGoalSchema_def Let_def by (simp only: sum.case)
  with assms show ?thesis by simp
next
  case (Inr dueDate)
  from assms have "u_title v = in_title input"
    unfolding updateGoalSchema_def Let_def
    by (simp only: sum.case Inr split: list.splits) auto
  moreover have "in_title input \<noteq> Some []"
    using updateGoalSchema_title_empty [of input toISO] assms by auto
  ultimately show ?thesis by simp
qed


lemma requiredMin1_given: "t \<noteq> [] \<Longrightarrow> requiredMin1 msg (Some t) = []"
  by (simp add: requiredMin1_def)

lemma optionalMin1_given: "v \<noteq> Some [] \<Longrightarrow> optionalMin1 msg v = []"
  by (auto simp: optionalMin1_def split: option.splits)

lemma otherFieldsPass_D:
  assumes "otherFieldsPass toISO input"
  obtains dueDate where
    "enumIssues prioritySchema (in_priority input) = []"
    "enumIssues statusSchema (in_status input) = []"
    "dueDateTransform toISO (in_dueDate input) = Inr dueDate"
    "concat (map subtaskSchemaIssues (case in_subtasks input of None \<Rightarrow> [] | Some rs \<Rightarrow> rs)) = []"
  using assms unfolding otherFieldsPass_def
  by (cases "dueDateTransform toISO (in_dueDate input)") auto

lemma goalSchema_accepts:
  assumes t: "in_title input = Some t" "t \<noteq> []" and rest: "otherFieldsPass toISO input"
  shows "\<exists>v. goalSchema toISO input = Inr v \<and> v_title v = t"
proof -
  from rest obtain dueDate where
    p: "enumIssues prioritySchema (in_priority input) = []" and
    st: "enumIssues statusSchema (in_status input) = []" and
    d: "dueDateTransform toISO (in_dueDate input) = Inr dueDate" and
    subs: "concat (map subtaskSchemaIssues (case in_subtasks input of None \<Rightarrow> [] | Some rs \<Rightarrow> rs)) = []"
    by (rule otherFieldsPass_D)
  have r: "requiredMin1 ''Goal title is required'' (Some t) = []"
    using t(2) by (rule requiredMin1_given)
  show ?thesis
    unfolding goalSchema_def Let_def
    apply (simp only: t(1) r p st d subs append_Nil sum.case list.case option.case)
    apply (rule exI)
    apply (rule conjI)
     apply (rule refl)
    apply (simp only: validatedGoal.select_convs)
    done
qed

lemma updateGoalSchema_accepts:
  assumes t: "in_title input \<noteq> Some []" and rest: "otherFieldsPass toISO input"
  shows "\<exists>v. updateGoalSchema toISO input = Inr v \<and> u_title v = in_title input"
proof -
  from rest obtain dueDate where
    p: "enumIssues prioritySchema (in_priority input) = []" and
    st: "enumIssues statusSchema (in_status input) = []" and
    d: "dueDateTransform toISO (in_dueDate input) = Inr dueDate" and
    subs: "concat (map subtaskSchemaIssues (case in_subtasks input of None \<Rightarrow> [] | Some rs \<Rightarrow> rs)) = []"
    by (rule otherFieldsPass_D)
  have r: "optionalMin1 ''Goal title is required'' (in_title input) = []"
    using t by (rule optionalMin1_given)
  show ?thesis
    unfolding updateGoalSchema_def Let_def
    apply (simp only: r p st d subs append_Nil sum.case list.case)
    apply (rule exI)
    apply (rule conjI)
     apply (rule refl)
    apply (simp only: validatedUpdate.select_convs)
    done
qed

lemma createSubtasks_goals:
  "createSubtasks dates k goalId vs s = (subtasks, s') \<Longrightarrow> inMemoryGoals s' = inMemoryGoals s"
proof (induction vs arbitrary: k s subtasks s')
  case Nil
  then show ?case by simp
next
  case (Cons v vs)
  then show ?case
    by (auto simp: Let_def split: prod.splits)
qed

lemma createGoalInMemory_stored:
  assumes "createGoalInMemory dates userId v s = ((goal, subtasks), s')"
  shows "goal_title goal = v_title v \<and> Map_get (inMemoryGoals s') (goal_id goal) = Some goal"
  using assms
  by (auto simp: createGoalInMemory_def Let_def Map_get_Map_set_same
           split: prod.splits dest!: createSubtasks_goals)

lemma updateGoalInMemory_stored:
  assumes "updateGoalInMemory now userId goalId v s = (Inr (goal, subtasks), s')"
  shows "Map_get (inMemoryGoals s') goalId = Some goal
         \<and> (\<forall>t. u_title v = Some t \<longrightarrow> goal_title goal = t)"
  using assms
  by (auto simp: updateGoalInMemory_def Let_def Map_get_Map_set_same
           split: option.splits if_splits)

lemma updateGoalInMemory_owned:
  assumes "Map_get (inMemoryGoals s) goalId = Some goal0" and "goal_ownerId goal0 = userId"
  shows "\<exists>goal subtasks s'. updateGoalInMemory now userId goalId v s = (Inr (goal, subtasks), s')
           \<and> goal_title goal = (case u_title v of None \<Rightarrow> goal_title goal0 | Some t \<Rightarrow> t)
           \<and> Map_get (inMemoryGoals s') goalId = Some goal"
  using assms
  by (auto simp: updateGoalInMemory_def Let_def Map_get_Map_set_same split: option.splits)

text \<open>
  Claim C6, as amended. \<open>createGoal\<close> rejects, leaving the store as it was, every input
  whose title is absent or the empty string; the error is the one of the title, or the
  one of an invalid due date, which is thrown first. \<open>updateGoal\<close> rejects in the same
  way an input whose title is the empty string. Titles are not trimmed: when the other
  fields pass their schemas, \<open>createGoal\<close> accepts every title of at least one
  character, a blank one too, and stores it as given; \<open>updateGoal\<close>, on a goal of the
  caller, accepts every such title and also an absent one, and then keeps the stored
  title. A goal accepted by \<open>createGoal\<close>, or updated with a title, is stored under its
  identifier with exactly the title given, which is not the empty string.
\<close>

theorem goal_title_validation:
  "(in_title input = None \<or> in_title input = Some [] \<longrightarrow>
      (fst (createGoal toISO dates userId input s) = Inl (Error ZodRequired)
       \<or> fst (createGoal toISO dates userId input s) = Inl (Error (Text ''Goal title is required''))
       \<or> fst (createGoal toISO dates userId input s) = Inl (Error (Text ''Invalid date format'')))
      \<and> snd (createGoal toISO dates userId input s) = s)
   \<and> (in_title input = Some [] \<longrightarrow>
      (fst (updateGoal toISO now userId goalId input s) = Inl (Error (Text ''Goal title is required''))
       \<or> fst (updateGoal toISO now userId goalId input s) = Inl (Error (Text ''Invalid date format'')))
      \<and> snd (updateGoal toISO now userId goalId input s) = s)
   \<and> (\<forall>t. in_title input = Some t \<and> t \<noteq> [] \<and> otherFieldsPass toISO input \<longrightarrow>
         (\<exists>goal subtasks s'. createGoal toISO dates userId input s = (Inr (goal, subtasks), s')
             \<and> goal_title goal = t
             \<and> Map_get (inMemoryGoals s') (goal_id goal) = Some goal))
   \<and> (\<forall>goal subtasks s'. createGoal toISO dates userId input s = (Inr (goal, subtasks), s') \<longrightarrow>
         (\<exists>t. in_title input = Some t \<and> t \<noteq> [] \<and> goal_title goal = t)
         \<and> Map_get (inMemoryGoals s') (goal_id goal) = Some goal)
   \<and> (\<forall>goal0. otherFieldsPass toISO input \<and> in_title input \<noteq> Some []
               \<and> Map_get (inMemoryGoals s) goalId = Some goal0 \<and> goal_ownerId goal0 = userId \<longrightarrow>
         (\<exists>goal subtasks s'. updateGoal toISO now userId goalId input s = (Inr (goal, subtasks), s')
             \<and> goal_title goal = (case in_title input of None \<Rightarrow> goal_title goal0 | Some t \<Rightarrow> t)
             \<and> Map_get (inMemoryGoals s') goalId = Some goal))
   \<and> (\<forall>goal subtasks s' t. updateGoal toISO now userId goalId input s = (Inr (goal, subtasks), s')
                              \<and> in_title input = Some t \<longrightarrow>
         t \<noteq> [] \<and> goal_title goal = t \<and> Map_get (inMemoryGoals s') goalId = Some goal)"
proof (intro conjI allI impI)
  assume a: "in_title input = None \<or> in_title input = Some []"
  from goalSchema_title_missing [OF a, of toISO]
  show "fst (createGoal toISO dates userId input s) = Inl (Error ZodRequired)
       \<or> fst (createGoal toISO dates userId input s) = Inl (Error (Text ''Goal title is required''))
       \<or> fst (createGoal toISO dates userId input s) = Inl (Error (Text ''Invalid date format''))"
    by (auto simp: createGoal_def)
  from goalSchema_title_missing [OF a, of toISO]
  show "snd (createGoal toISO dates userId input s) = s"
    by (auto simp: createGoal_def)
next
  assume a: "in_title input = Some []"
  from updateGoalSchema_title_empty [OF a, of toISO]
  show "fst (updateGoal toISO now userId goalId input s) = Inl (Error (Text ''Goal title is required''))
       \<or> fst (updateGoal toISO now userId goalId input s) = Inl (Error (Text ''Invalid date format''))"
    by (auto simp: updateGoal_def)
  from updateGoalSchema_title_empty [OF a, of toISO]
  show "snd (updateGoal toISO now userId goalId input s) = s"
    by (auto simp: updateGoal_def)
next
  fix t
  assume a: "in_title input = Some t \<and> t \<noteq> [] \<and> otherFieldsPass toISO input"
  then obtain v where v: "goalSchema toISO input = Inr v" and vt: "v_title v = t"
    using goalSchema_accepts [of input t toISO] by blast
  obtain goal subtasks s' where c: "createGoalInMemory dates userId v s = ((goal, subtasks), s')"
    by (metis surj_pair)
  from createGoalInMemory_stored [OF c] vt
  have "goal_title goal = t" and "Map_get (inMemoryGoals s') (goal_id goal) = Some goal"
    by simp_all
  moreover have "createGoal toISO dates userId input s = (Inr (goal, subtasks), s')"
    by (simp add: createGoal_def v c)
  ultimately show "\<exists>goal subtasks s'. createGoal toISO dates userId input s = (Inr (goal, subtasks), s')
             \<and> goal_title goal = t
             \<and> Map_get (inMemoryGoals s') (goal_id goal) = Some goal"
    by blast
next
  fix goal subtasks s'
  assume a: "createGoal toISO dates userId input s = (Inr (goal, subtasks), s')"
  then obtain v where v: "goalSchema toISO input = Inr v"
    and c: "createGoalInMemory dates userId v s = ((goal, subtasks), s')"
    by (auto simp: createGoal_def split: sum.splits prod.splits)
  from goalSchema_Inr [OF v] createGoalInMemory_stored [OF c]
  show "\<exists>t. in_title input = Some t \<and> t \<noteq> [] \<and> goal_title goal = t"
    and "Map_get (inMemoryGoals s') (goal_id goal) = Some goal"
    by auto
next
  fix goal0
  assume a: "otherFieldsPass toISO input \<and> in_title input \<noteq> Some []
               \<and> Map_get (inMemoryGoals s) goalId = Some goal0 \<and> goal_ownerId goal0 = userId"
  then obtain v where v: "updateGoalSchema toISO input = Inr v" and vt: "u_title v = in_title input"
    using updateGoalSchema_accepts [of input toISO] by blast
  from a have g: "Map_get (inMemoryGoals s) goalId = Some goal0" and own: "goal_ownerId goal0 = userId"
    by simp_all
  from updateGoalInMemory_owned [OF g own, of now v]
  show "\<exists>goal subtasks s'. updateGoal toISO now userId goalId input s = (Inr (goal, subtasks), s')
             \<and> goal_title goal = (case in_title input of None \<Rightarrow> goal_title goal0 | Some t \<Rightarrow> t)
             \<and> Map_get (inMemoryGoals s') goalId = Some goal"
    by (simp add: updateGoal_def v vt)
next
  fix goal subtasks s' t
  assume a: "updateGoal toISO now userId goalId input s = (Inr (goal, subtasks), s') \<and> in_title input = Some t"
  then obtain v where v: "updateGoalSchema toISO input = Inr v"
    and c: "updateGoalInMemory now userId goalId v s = (Inr (goal, subtasks), s')"
    by (auto simp: updateGoal_def split: sum.splits)
  from updateGoalSchema_Inr [OF v] updateGoalInMemory_stored [OF c] a
  show "t \<noteq> []" and "goal_title goal = t" and "Map_get (inMemoryGoals s') goalId = Some goal"
    by auto
qed

theorem goal_title_validation_witness:
  "in_title emptyTitleInput = Some []
   \<and> ((fst (createGoal noDate laterDates ''user-1'' emptyTitleInput demoData) = Inl (Error ZodRequired)
        \<or> fst (createGoal noDate laterDates ''user-1'' emptyTitleInput demoData)
             = Inl (Error (Text ''Goal title is required''))
        \<or> fst (createGoal noDate laterDates ''user-1'' emptyTitleInput demoData)
             = Inl (Error (Text ''Invalid date format'')))
       \<and> snd (createGoal noDate laterDates ''user-1'' emptyTitleInput demoData) = demoData)
   \<and> ((fst (updateGoal noDate 40 ''user-1'' ''goal-1'' emptyTitleInput demoData)
             = Inl (Error (Text ''Goal title is required''))
        \<or> fst (updateGoal noDate 40 ''user-1'' ''goal-1'' emptyTitleInput demoData)
             = Inl (Error (Text ''Invalid date format'')))
       \<and> snd (updateGoal noDate 40 ''user-1'' ''goal-1'' emptyTitleInput demoData) = demoData)
   \<and> in_title blankTitleInput = Some ''   ''
   \<and> trim ''   '' = []
   \<and> otherFieldsPass noDate blankTitleInput
   \<and> (\<exists>goal subtasks s'. createGoal noDate laterDates ''user-1'' blankTitleInput demoData
                             = (Inr (goal, subtasks), s')
         \<and> goal_title goal = ''   ''
         \<and> Map_get (inMemoryGoals s') (goal_id goal) = Some goal)
   \<and> demoCreate = (Inr (fst (projr (fst demoCreate)), snd (projr (fst demoCreate))), snd demoCreate)
   \<and> ((\<exists>t. in_title blankTitleInput = Some t \<and> t \<noteq> [] \<and> goal_title (fst (projr (fst demoCreate))) = t)
       \<and> Map_get (inMemoryGoals (snd demoCreate)) (goal_id (fst (projr (fst demoCreate))))
            = Some (fst (projr (fst demoCreate))))
   \<and> otherFieldsPass noDate emptyInput
   \<and> in_title emptyInput \<noteq> Some []
   \<and> Map_get (inMemoryGoals demoData) ''goal-1'' = Some (demoGoal1 10 11)
   \<and> goal_ownerId (demoGoal1 10 11) = ''user-1''
   \<and> (\<exists>goal subtasks s'. updateGoal noDate 40 ''user-1'' ''goal-1'' emptyInput demoData
                             = (Inr (goal, subtasks), s')
         \<and> goal_title goal
             = (case in_title emptyInput of None \<Rightarrow> goal_title (demoGoal1 10 11) | Some t \<Rightarrow> t)
         \<and> Map_get (inMemoryGoals s') ''goal-1'' = Some goal)
   \<and> demoUpdate = (Inr (fst (projr (fst demoUpdate)), snd (projr (fst demoUpdate))), snd demoUpdate)
   \<and> (''   '' \<noteq> []
       \<and> goal_title (fst (projr (fst demoUpdate))) = ''   ''
       \<and> Map_get (inMemoryGoals (snd demoUpdate)) ''goal-1'' = Some (fst (projr (fst demoUpdate))))"
proof -
  note A = goal_title_validation [where input = emptyTitleInput and toISO = noDate
      and dates = laterDates and now = 40
      and userId = "''user-1''" and goalId = "''goal-1''" and s = demoData]
  note B = goal_title_validation [where input = blankTitleInput and toISO = noDate
      and dates = laterDates and now = 40
      and userId = "''user-1''" and goalId = "''goal-1''" and s = demoData]
  note C = goal_title_validation [where input = emptyInput and toISO = noDate
      and dates = laterDates and now = 40
      and userId = "''user-1''" and goalId = "''goal-1''" and s = demoData]
  have e: "in_title emptyTitleInput = Some []"
    by (simp add: emptyTitleInput_def emptyInput_def)
  have bt: "in_title blankTitleInput = Some ''   ''"
    by (simp add: blankTitleInput_def emptyInput_def)
  have tr: "trim ''   '' = []"
    by code_simp
  have ne: "''   '' \<noteq> []"
    by simp
  have ofp: "otherFieldsPass noDate blankTitleInput"
    by code_simp
  have ofpE: "otherFieldsPass noDate emptyInput"
    by code_simp
  have nt: "in_title emptyInput \<noteq> Some []"
    by (simp add: emptyInput_def)
  have g0: "Map_get (inMemoryGoals demoData) ''goal-1'' = Some (demoGoal1 10 11)"
    by code_simp
  have own: "goal_ownerId (demoGoal1 10 11) = ''user-1''"
    by (simp add: demoGoal1_def)
  have c: "demoCreate = (Inr (fst (projr (fst demoCreate)), snd (projr (fst demoCreate))), snd demoCreate)"
    by code_simp
  have c': "createGoal noDate laterDates ''user-1'' blankTitleInput demoData
              = (Inr (fst (projr (fst demoCreate)), snd (projr (fst demoCreate))), snd demoCreate)"
    by (rule trans [OF demoCreate_def [symmetric] c])
  have u: "demoUpdate = (Inr (fst (projr (fst demoUpdate)), snd (projr (fst demoUpdate))), snd demoUpdate)"
    by code_simp
  have u': "updateGoal noDate 40 ''user-1'' ''goal-1'' blankTitleInput demoData
              = (Inr (fst (projr (fst demoUpdate)), snd (projr (fst demoUpdate))), snd demoUpdate)"
    by (rule trans [OF demoUpdate_def [symmetric] u])
  note 1 = A [THEN conjunct1, THEN mp, OF disjI2 [OF e]]
  note 2 = A [THEN conjunct2, THEN conjunct1, THEN mp, OF e]
  note 3 = B [THEN conjunct2, THEN conjunct2, THEN conjunct1, THEN spec, THEN mp,
              OF conjI [OF bt conjI [OF ne ofp]]]
  note 4 = B [THEN conjunct2, THEN conjunct2, THEN conjunct2, THEN conjunct1,
              THEN spec, THEN spec, THEN spec, THEN mp, OF c']
  note 5 = C [THEN conjunct2, THEN conjunct2, THEN conjunct2, THEN conjunct2, THEN conjunct1,
              THEN spec, THEN mp, OF conjI [OF ofpE conjI [OF nt conjI [OF g0 own]]]]
  note 6 = B [THEN conjunct2, THEN conjunct2, THEN conjunct2, THEN conjunct2, THEN conjunct2,
              THEN spec, THEN spec, THEN spec, THEN spec, THEN mp, OF conjI [OF u' bt]]
  from e 1 2 bt tr ofp 3 c 4 ofpE nt g0 own 5 u 6 show ?thesis
    by - ((rule conjI, assumption)+, assumption)
qed

text \<open>
  Claim C6 as stated fails. A title of three spaces, empty after trimming, is accepted
  and stored as it is by \<open>createGoal\<close> and by \<open>updateGoal\<close>; and \<open>updateGoal\<close> accepts
  an input with no title, keeping the stored one.
\<close>

theorem blank_title_accepted:
  "trim ''   '' = []
   \<and> map_sum id (\<lambda>(goal, subtasks). goal_title goal)
        (fst (createGoal noDate laterDates ''user-1'' blankTitleInput demoData)) = Inr ''   ''
   \<and> map_option goal_title
        (Map_get (inMemoryGoals (snd (createGoal noDate laterDates ''user-1'' blankTitleInput demoData)))
           ''goal-3'')
        = Some ''   ''
   \<and> map_sum id (\<lambda>(goal, subtasks). goal_title goal)
        (fst (updateGoal noDate 40 ''user-1'' ''goal-1'' blankTitleInput demoData)) = Inr ''   ''
   \<and> in_title emptyInput = None
   \<and> map_sum id (\<lambda>(goal, subtasks). goal_title goal)
        (fst (updateGoal noDate 40 ''user-1'' ''goal-1'' emptyInput demoData)) = Inr ''Launch Product MVP''"
  by code_simp

section \<open>Errors for a missing and for a foreign subtask\<close>

text \<open>
  Claim C4 at a failing input: on the demo data, a caller who does not own the goal gets
  \<open>Access denied\<close> for a subtask that exists and \<open>Subtask not found\<close> for one that does
  not, from the toggle and from the update of a subtask alike, so the two cases can be
  told apart. Deleting a goal, by contrast, fails with one and the same message.
\<close>

theorem subtask_errors_tell_existence:
  "fst (GoalController_toggleSubtask 40 41 ''user-2'' ''subtask-1'' demoData)
     = Inl (Error (Text ''Access denied''))
   \<and> fst (GoalController_toggleSubtask 40 41 ''user-2'' ''subtask-999'' demoData)
     = Inl (Error (Text ''Subtask not found''))
   \<and> fst (updateSubtaskInMemory 40 ''user-2'' ''goal-1'' ''subtask-1'' markCompleted demoData)
     = Inl (Error (Text ''Access denied''))
   \<and> fst (updateSubtaskInMemory 40 ''user-2'' ''goal-1'' ''subtask-999'' markCompleted demoData)
     = Inl (Error (Text ''Subtask not found''))
   \<and> fst (deleteGoalInMemory ''user-2'' ''goal-1'' demoData)
     = Inl (Error (Text ''Goal not found or access denied''))
   \<and> fst (deleteGoalInMemory ''user-2'' ''goal-999'' demoData)
     = Inl (Error (Text ''Goal not found or access denied''))"
  by code_simp

text \<open>
  Claim C2 at a failing input: for the same caller, subtask and rows, the in-memory
  service and the database path of \<open>toggleSubtask\<close> fail with different messages.
\<close>

theorem toggle_backends_differ:
  "fst (toggleSubtaskInMemory 40 ''user-2'' ''subtask-1'' demoData)
     = Inl (Error (Text ''Access denied''))
   \<and> fst (toggleSubtask_prisma 40 ''user-2'' ''subtask-1'' (databaseOf demoData))
     = Inl (Error (Text ''Subtask not found or access denied''))"
  by code_simp

section \<open>Deleting a goal\<close>








section \<open>Adding a subtask\<close>

lemma addSubtaskInMemory_Inr:
  assumes "addSubtaskInMemory now1 now2 userId goalId sd s = (Inr subtask, s')"
  shows "subtask_completed subtask = JBool False
         \<and> Map_get (inMemorySubtasks s') (subtask_id subtask) = Some subtask"
  using assms
  by (auto simp: addSubtaskInMemory_def Let_def Map_get_Map_set_same
           split: option.splits if_splits)

lemma addSubtask_prisma_Inr:
  assumes "addSubtask_prisma now newId userId goalId sd db = (Inr subtask, db')"
  shows "subtask_completed subtask = JBool False \<and> subtask \<in> set (db_subtasks db')"
  using assms
  by (auto simp: addSubtask_prisma_def Let_def split: option.splits)

text \<open>
  Claim C10. The answer of the Add Subtask command does not depend on the \<open>completed\<close>
  field of the request; a subtask it creates in memory is stored with
  \<open>completed = false\<close>; and so is the row that the database path of \<open>addSubtask\<close>
  creates, whatever data it is given.
\<close>

theorem addSubtask_starts_incomplete:
  "GoalController_addSubtask createdAt updatedAt userId goalId (body\<lparr>body_completed := c\<rparr>) s
     = GoalController_addSubtask createdAt updatedAt userId goalId body s
   \<and> (\<forall>subtask s'. GoalController_addSubtask createdAt updatedAt userId goalId body s = (Inr subtask, s')
          \<longrightarrow> subtask_completed subtask = JBool False
              \<and> Map_get (inMemorySubtasks s') (subtask_id subtask) = Some subtask)
   \<and> (\<forall>subtask db'. addSubtask_prisma now newId userId goalId sd db = (Inr subtask, db')
          \<longrightarrow> subtask_completed subtask = JBool False \<and> subtask \<in> set (db_subtasks db'))"
proof (intro conjI allI impI)
  show "GoalController_addSubtask createdAt updatedAt userId goalId (body\<lparr>body_completed := c\<rparr>) s
          = GoalController_addSubtask createdAt updatedAt userId goalId body s"
    by (simp add: GoalController_addSubtask_def)
next
  fix subtask s'
  assume a: "GoalController_addSubtask createdAt updatedAt userId goalId body s = (Inr subtask, s')"
  then have "\<exists>sd. addSubtaskInMemory createdAt updatedAt userId goalId sd s = (Inr subtask, s')"
    by (auto simp: GoalController_addSubtask_def split: if_splits)
  then show "subtask_completed subtask = JBool False"
    and "Map_get (inMemorySubtasks s') (subtask_id subtask) = Some subtask"
    using addSubtaskInMemory_Inr by blast+
next
  fix subtask db'
  assume "addSubtask_prisma now newId userId goalId sd db = (Inr subtask, db')"
  then show "subtask_completed subtask = JBool False" and "subtask \<in> set (db_subtasks db')"
    using addSubtask_prisma_Inr by blast+
qed

theorem addSubtask_starts_incomplete_witness:
  "body_completed demoBody = Some (JBool True)
   \<and> demoAdd = (Inr (projr (fst demoAdd)), snd demoAdd)
   \<and> subtask_completed (projr (fst demoAdd)) = JBool False
   \<and> Map_get (inMemorySubtasks (snd demoAdd)) (subtask_id (projr (fst demoAdd)))
        = Some (projr (fst demoAdd))
   \<and> demoAddPrisma = (Inr (projr (fst demoAddPrisma)), snd demoAddPrisma)
   \<and> subtask_completed (projr (fst demoAddPrisma)) = JBool False
   \<and> projr (fst demoAddPrisma) \<in> set (db_subtasks (snd demoAddPrisma))"
proof -
  have b: "body_completed demoBody = Some (JBool True)"
    by (simp add: demoBody_def)
  have h: "demoAdd = (Inr (projr (fst demoAdd)), snd demoAdd)"
    by code_simp
  have h': "GoalController_addSubtask 40 41 ''user-1'' ''goal-1'' demoBody demoData
              = (Inr (projr (fst demoAdd)), snd demoAdd)"
    by (rule trans [OF demoAdd_def [symmetric] h])
  have p: "demoAddPrisma = (Inr (projr (fst demoAddPrisma)), snd demoAddPrisma)"
    by code_simp
  have p': "addSubtask_prisma 40 ''row-1'' ''user-1'' ''goal-1'' demoSubtaskData (databaseOf demoData)
              = (Inr (projr (fst demoAddPrisma)), snd demoAddPrisma)"
    by (rule trans [OF demoAddPrisma_def [symmetric] p])
  note T = addSubtask_starts_incomplete [where createdAt = 40 and updatedAt = 41 and now = 40
         and userId = "''user-1''" and goalId = "''goal-1''"
         and body = demoBody and c = None and s = demoData
         and newId = "''row-1''" and sd = demoSubtaskData and db = "databaseOf demoData"]
  note 1 = T [THEN conjunct2, THEN conjunct1, THEN spec, THEN spec, THEN mp, OF h']
  note 2 = T [THEN conjunct2, THEN conjunct2, THEN spec, THEN spec, THEN mp, OF p']
  from b h 1 [THEN conjunct1] 1 [THEN conjunct2] p 2 [THEN conjunct1] 2 [THEN conjunct2]
  show ?thesis
    by - ((rule conjI, assumption)+, assumption)
qed

section \<open>Results of the suggestion fallback\<close>

lemma fallback_unfold:
  "generateSubtasksFallback d (ContextObject c) =
     (let subtasks5 = fallbackTasks d (case ctx_teamSize c of None \<Rightarrow> 1 | Some n \<Rightarrow> n);
          subtasks = subtasks5 @ [reviewTask subtasks5]
      in Inr \<lparr>res_success = True,
                   res_subtasks = take 6 subtasks,
                   res_reasoning = ''Tasks generated using keyword analysis and best practices for goal completion'',
                   res_estimatedTotalHours = foldl (\<lambda>sum task. sum + task_estimatedHours task) 0 subtasks,
                   res_criticalPath = map task_title (take 3 subtasks),
                   res_tips = [''Break down large tasks into smaller, manageable chunks'',
                               ''Set clear deadlines for each subtask'',
                               ''Review progress regularly and adjust as needed''],
                   res_generatedBy = ''fallback-algorithm''\<rparr>)"
  unfolding generateSubtasksFallback_def fallbackTasks_def Let_def
  by (simp only: contextArg.case sum.case)


lemma fallback_undefined:
  "generateSubtasksFallback d ContextUndefined
     = generateSubtasksFallback d (ContextObject \<lparr>ctx_priority = None, ctx_teamSize = None\<rparr>)"
  unfolding generateSubtasksFallback_def
  by (simp only: contextArg.case)

lemma fallback_result:
  "\<exists>r. generateSubtasksFallback d (ContextObject c) = Inr r
       \<and> res_success r \<and> res_generatedBy r = ''fallback-algorithm''
       \<and> res_subtasks r =
           take 6 (fallbackTasks d (case ctx_teamSize c of None \<Rightarrow> 1 | Some n \<Rightarrow> n)
                   @ [reviewTask (fallbackTasks d (case ctx_teamSize c of None \<Rightarrow> 1 | Some n \<Rightarrow> n))])"
  unfolding fallback_unfold Let_def
  apply (rule exI)
  apply (intro conjI)
     apply (rule refl)
    apply (simp only: fallbackResult.select_convs)+
  done

lemma fallback_object:
  "\<exists>r. generateSubtasksFallback d (ContextObject c) = Inr r
       \<and> res_success r \<and> res_generatedBy r = ''fallback-algorithm''
       \<and> 1 \<le> length (res_subtasks r) \<and> length (res_subtasks r) \<le> 6"
proof -
  let ?T = "fallbackTasks d (case ctx_teamSize c of None \<Rightarrow> 1 | Some n \<Rightarrow> n)"
  from fallback_result obtain r where
    r: "generateSubtasksFallback d (ContextObject c) = Inr r" and
    ok: "res_success r" "res_generatedBy r = ''fallback-algorithm''" and
    sub: "res_subtasks r = take 6 (?T @ [reviewTask ?T])"
    by blast
  have "1 \<le> length (res_subtasks r)" and "length (res_subtasks r) \<le> 6"
    by (simp_all add: sub)
  with r ok show ?thesis by blast
qed

text \<open>
  The cut to six keeps the closing review when at most five tasks come before it, and
  removes it, and nothing else, when six do.
\<close>

lemma fallback_review_kept:
  assumes "generateSubtasksFallback d (ContextObject c) = Inr r"
    and "length (fallbackTasks d (case ctx_teamSize c of None \<Rightarrow> 1 | Some n \<Rightarrow> n)) \<le> 5"
  shows "last (res_subtasks r)
           = reviewTask (fallbackTasks d (case ctx_teamSize c of None \<Rightarrow> 1 | Some n \<Rightarrow> n))"
proof -
  from fallback_result [of d c] assms(1)
  have "res_subtasks r =
          take 6 (fallbackTasks d (case ctx_teamSize c of None \<Rightarrow> 1 | Some n \<Rightarrow> n)
                  @ [reviewTask (fallbackTasks d (case ctx_teamSize c of None \<Rightarrow> 1 | Some n \<Rightarrow> n))])"
    by auto
  with assms(2) show ?thesis by simp
qed

lemma fallback_review_cut:
  assumes "generateSubtasksFallback d (ContextObject c) = Inr r"
    and "length (fallbackTasks d (case ctx_teamSize c of None \<Rightarrow> 1 | Some n \<Rightarrow> n)) = 6"
  shows "res_subtasks r = fallbackTasks d (case ctx_teamSize c of None \<Rightarrow> 1 | Some n \<Rightarrow> n)"
proof -
  from fallback_result [of d c] assms(1)
  have "res_subtasks r =
          take 6 (fallbackTasks d (case ctx_teamSize c of None \<Rightarrow> 1 | Some n \<Rightarrow> n)
                  @ [reviewTask (fallbackTasks d (case ctx_teamSize c of None \<Rightarrow> 1 | Some n \<Rightarrow> n))])"
    by auto
  with assms(2) show ?thesis by simp
qed


text \<open>
  For every description and every context object, and also when the context is absent,
  the fallback returns a result: a success of the fallback algorithm with between one
  and six subtasks.
\<close>

lemma fallback_total:
  "(\<exists>r. generateSubtasksFallback d (ContextObject c) = Inr r
       \<and> res_success r \<and> res_generatedBy r = ''fallback-algorithm''
       \<and> 1 \<le> length (res_subtasks r) \<and> length (res_subtasks r) \<le> 6)
   \<and> (\<exists>r. generateSubtasksFallback d ContextUndefined = Inr r)"
proof (intro conjI)
  show "\<exists>r. generateSubtasksFallback d (ContextObject c) = Inr r
       \<and> res_success r \<and> res_generatedBy r = ''fallback-algorithm''
       \<and> 1 \<le> length (res_subtasks r) \<and> length (res_subtasks r) \<le> 6"
    by (rule fallback_object)
next
  from fallback_object obtain r where
    "generateSubtasksFallback d (ContextObject \<lparr>ctx_priority = None, ctx_teamSize = None\<rparr>) = Inr r"
    by blast
  then have "generateSubtasksFallback d ContextUndefined = Inr r"
    by (simp only: fallback_undefined)
  then show "\<exists>r. generateSubtasksFallback d ContextUndefined = Inr r" ..
qed

text \<open>
  Claim C7 at a failing input. The default \<open>context = {}\<close> stands in for a context that
  is \<open>undefined\<close>, not for one that is \<open>null\<close>: with a string description and the
  context \<open>null\<close>, which \<open>generateSubtasks\<close> hands over from its \<open>catch\<close> branch when the
  request carries \<open>"context": null\<close>, the fallback throws a \<open>TypeError\<close>.
\<close>

theorem fallback_throws_on_null:
  "generateSubtasksFallback ''build and test a checkout flow'' ContextNull = Inl TypeError"
  by code_simp

text \<open>
  Claim C8. For the description \<open>build and test a checkout flow\<close> and a team of one,
  the fallback returns exactly five tasks: scope, setup, implementation, testing and the
  closing review, in this order, with no deployment and no coordination task.
\<close>

theorem fallback_checkout_scenario:
  "map_sum id (\<lambda>r. map task_title (res_subtasks r))
     (generateSubtasksFallback ''build and test a checkout flow'' (ContextObject checkoutContext))
   = Inr [''Define project scope and requirements'',
          ''Set up development environment'',
          ''Implement core functionality'',
          ''Conduct thorough testing'',
          ''Final review and documentation'']"
  by code_simp

text \<open>
  Claim C5 at a failing input. When a build, a test and a deploy keyword all occur and
  the team has more than one member, seven tasks are built and the cut to six removes
  the closing review: the last task returned is the coordination task, while the total
  of 28 hours still counts the two hours of the review that was dropped.
\<close>

theorem fallback_drops_review:
  "map_sum id (\<lambda>r. (map task_title (res_subtasks r), res_estimatedTotalHours r))
     (generateSubtasksFallback ''Build, test and deploy the shop'' (ContextObject teamContext))
   = Inr ([''Define project scope and requirements'',
          ''Set up development environment'',
          ''Implement core functionality'',
          ''Conduct thorough testing'',
          ''Prepare for deployment'',
          ''Coordinate team activities''], 28)"
  by code_simp

end
